theory Spec2Isabelle
  imports Main "HOL-Library.AList"
begin

section \<open>The cluster agent of libnetwork (agent.go)\<close>

text \<open>
  A shallow embedding of \<^verbatim>\<open>agent.go\<close>. The controller, its agent and the distributed
  store behind the agent's \<^verbatim>\<open>networkDB\<close> handle are one explicit state that every
  operation takes and returns. Every call that leaves the file (the store, the
  service-binding and name-record collaborators, the driver, the logger, the mutex, a
  spawned dispatch loop) is appended to the state's trace, in program order. Whether a
  fallible collaborator call returns an error is decided by a parameter of the
  environment that sees the trace so far, so the theorems hold for every behaviour of the
  collaborators.
\<close>

subsection \<open>Data\<close>

type_synonym bytes = "nat list"

text \<open>A \<^verbatim>\<open>net.IP\<close> is a byte slice; the nil address is the empty list.\<close>

type_synonym IP = "nat list"

text \<open>
  Modelled from the spec: the generated protobuf types \<^verbatim>\<open>PortConfig\<close> and
  \<^verbatim>\<open>EndpointRecord\<close> (agent.pb.go is not among the sources); the fields are those of
  the wire format in the spec, and of the composite literal in \<^verbatim>\<open>addToCluster\<close>.
\<close>

record PortConfig =
  Protocol :: nat
  PublishedPort :: nat
  TargetPort :: nat

record EndpointRecord =
  Name :: string
  ServiceName :: string
  ServiceID :: string
  VirtualIP :: string
  IngressPorts :: "PortConfig list"
  EndpointIP :: string

definition zeroRecord :: EndpointRecord where
  "zeroRecord = \<lparr>Name = [], ServiceName = [], ServiceID = [], VirtualIP = [],
     IngressPorts = [], EndpointIP = []\<rparr>"

text \<open>The table events of networkdb: each carries table, network id, key and value.\<close>

record tableEvent =
  Table :: string
  NetworkID :: string
  Key :: string
  evValue :: bytes

datatype event = CreateEvent tableEvent | DeleteEvent tableEvent | UpdateEvent tableEvent

text \<open>\<^verbatim>\<open>driverapi.EventType\<close>.\<close>

datatype eventType = Create | Delete

text \<open>
  Modelled from the spec: the fields of \<^verbatim>\<open>network\<close> and \<^verbatim>\<open>endpoint\<close> that agent.go
  reads (both structs are declared outside the sources). \<open>ifaceAddress\<close> is the result
  of \<^verbatim>\<open>ep.Iface().Address()\<close>, a pointer that may be nil; \<open>joinInfo\<close> is the pointer
  \<^verbatim>\<open>ep.joinInfo\<close>, which may be nil.
\<close>

record network =
  netID :: string
  networkType :: string
  driverScope :: string
  ingress :: bool
  driverTables :: "string list"

record tableEntry =
  tableName :: string
  key :: string
  entryValue :: bytes

record endpointJoinInfo =
  driverTableEntries :: "tableEntry list"

record IPNet =
  ipOf :: IP
  maskOf :: bytes

record endpoint =
  epID :: string
  epName :: string
  isAnonymous :: bool
  svcName :: string
  svcID :: string
  virtualIP :: IP
  ingressPorts :: "PortConfig list"
  ifaceAddress :: "IPNet option"
  joinInfo :: "endpointJoinInfo option"

definition GlobalScope :: string where
  "GlobalScope = ''global''"

text \<open>The function handed to a dispatch loop.\<close>

datatype handler = EpTableHandler | DriverTableHandler string

datatype error =
    ErrFindInterface string string
  | ErrInterfaceAddrs string
  | ErrNoBindAddr
  | ExtError string
  | NilPointerDereference

text \<open>
  The calls that leave agent.go. A watch is identified by a number: it stands for both
  the channel and the cancel function that \<^verbatim>\<open>Watch\<close> returns.
\<close>

datatype effect =
    ENewDB string string
  | EWatch string string string
  | ESpawn nat handler
  | EJoinNetwork string
  | ELeaveNetwork string
  | ECreateEntry string string string bytes
  | EDeleteEntry string string string
  | EWalkTable string
  | ECancel nat
  | ELock
  | ESetCancelFuncs string "nat list"
  | EDeleteCancelFuncs string
  | EUnlock
  | EAddServiceBinding string string string string IP "PortConfig list" IP
  | ERmServiceBinding string string string string IP "PortConfig list" IP
  | EAddSvcRecords string string IP
  | EDeleteSvcRecords string string IP
  | ENetworkByID string
  | EResolveDriver string
  | EEventNotify eventType string string string bytes
  | EMarshal EndpointRecord
  | EUnmarshal bytes
  | ELogError string

record agent =
  bindAddr :: string
  epTblCancel :: nat
  driverCancelFuncs :: "string \<rightharpoonup> nat list"

text \<open>
  Modelled from the spec: the controller's fields read here (\<open>isAgentCfg\<close> is
  \<^verbatim>\<open>c.isAgent()\<close>, \<open>networks\<close> is what \<^verbatim>\<open>c.NetworkByID\<close> searches) and the state of the
  distributed table store (networkdb is not among the sources): a table of values keyed
  by (table name, network id, key), and the number of watches handed out so far.
\<close>

record state =
  isAgentCfg :: bool
  agentOf :: "agent option"
  networks :: "string \<rightharpoonup> network"
  dbEntries :: "((string \<times> string \<times> string) \<times> bytes) list"
  dbWatches :: nat
  trace :: "effect list"

datatype addr = IPNetAddr IP | OtherAddr

record iface =
  ifaceAddrs :: "string + addr list"

text \<open>
  The environment: the operating system's interface table and host name, the standard
  library's address functions, the protobuf codec, and \<open>extFails\<close>, which says for the
  trace so far and the call being made whether the collaborator returns an error.
\<close>

record env =
  extFails :: "effect list \<Rightarrow> effect \<Rightarrow> string option"
  parseIP :: "string \<Rightarrow> IP"
  ipString :: "IP \<Rightarrow> string"
  isLinkLocalUnicast :: "IP \<Rightarrow> bool"
  interfaceByName :: "string \<Rightarrow> string + iface"
  hostname :: string
  marshal :: "EndpointRecord \<Rightarrow> bytes"
  decode :: "bytes \<Rightarrow> EndpointRecord option"

subsection \<open>Calls to the collaborators\<close>

definition emit :: "effect \<Rightarrow> state \<Rightarrow> state" where
  "emit e w = w\<lparr>trace := trace w @ [e]\<rparr>"

definition callExt :: "env \<Rightarrow> effect \<Rightarrow> state \<Rightarrow> error option \<times> state" where
  "callExt E e w = (map_option ExtError (extFails E (trace w) e), emit e w)"

text \<open>The effects a run added to the trace.\<close>

definition newEffects :: "state \<Rightarrow> state \<Rightarrow> effect list" where
  "newEffects w w' = drop (length (trace w)) (trace w')"

text \<open>
  Modelled from the spec: \<^verbatim>\<open>CreateEntry\<close> of networkdb (not among the sources). When it
  succeeds the value stands under its key (table name, network id, key); when it fails
  the store is unchanged.
\<close>

definition CreateEntry ::
  "env \<Rightarrow> string \<Rightarrow> string \<Rightarrow> string \<Rightarrow> bytes \<Rightarrow> state \<Rightarrow> error option \<times> state" where
  "CreateEntry E tname nid k v w =
     (case callExt E (ECreateEntry tname nid k v) w of
        (Some err, w') \<Rightarrow> (Some err, w')
      | (None, w') \<Rightarrow> (None, w'\<lparr>dbEntries := AList.update (tname, nid, k) v (dbEntries w')\<rparr>))"

text \<open>
  Modelled from the spec: \<^verbatim>\<open>DeleteEntry\<close> of networkdb. When it succeeds the key is
  absent; when it fails the store is unchanged.
\<close>

definition DeleteEntry ::
  "env \<Rightarrow> string \<Rightarrow> string \<Rightarrow> string \<Rightarrow> state \<Rightarrow> error option \<times> state" where
  "DeleteEntry E tname nid k w =
     (case callExt E (EDeleteEntry tname nid k) w of
        (Some err, w') \<Rightarrow> (Some err, w')
      | (None, w') \<Rightarrow> (None, w'\<lparr>dbEntries := AList.delete (tname, nid, k) (dbEntries w')\<rparr>))"

text \<open>
  Modelled from the spec: \<^verbatim>\<open>Watch\<close> of networkdb. It hands out the next watch; the
  number stands for the channel and for the cancel function.
\<close>

definition Watch :: "string \<Rightarrow> string \<Rightarrow> string \<Rightarrow> state \<Rightarrow> nat \<times> state" where
  "Watch tname nid k w =
     (dbWatches w, (emit (EWatch tname nid k) w)\<lparr>dbWatches := Suc (dbWatches w)\<rparr>)"

text \<open>
  Modelled from the spec: \<^verbatim>\<open>WalkTable\<close> of networkdb, which takes a table name and a
  visitor. It visits every entry of the table, of whatever network, in the order of the
  store, passing the entry's network id, key and value to the visitor, until the visitor
  returns true.
\<close>

fun walkEntries ::
  "(string \<Rightarrow> string \<Rightarrow> bytes \<Rightarrow> state \<Rightarrow> bool \<times> state) \<Rightarrow>
   ((string \<times> string \<times> string) \<times> bytes) list \<Rightarrow> state \<Rightarrow> state" where
  "walkEntries fn [] w = w"
| "walkEntries fn (((tname, nid, k), v) # es) w =
     (case fn nid k v w of
        (True, w') \<Rightarrow> w'
      | (False, w') \<Rightarrow> walkEntries fn es w')"

definition tableRows ::
  "string \<Rightarrow> ((string \<times> string \<times> string) \<times> bytes) list \<Rightarrow>
   ((string \<times> string \<times> string) \<times> bytes) list" where
  "tableRows tname es = filter (\<lambda>r. fst (fst r) = tname) es"

definition WalkTable ::
  "string \<Rightarrow> (string \<Rightarrow> string \<Rightarrow> bytes \<Rightarrow> state \<Rightarrow> bool \<times> state) \<Rightarrow> state \<Rightarrow> state" where
  "WalkTable tname fn w =
     walkEntries fn (tableRows tname (dbEntries w)) (emit (EWalkTable tname) w)"

text \<open>
  \<^verbatim>\<open>proto.Unmarshal\<close>: an empty buffer is the encoding of the record whose fields all
  have their zero value; any other buffer is decoded by the environment's codec.
\<close>

definition Unmarshal :: "env \<Rightarrow> bytes \<Rightarrow> EndpointRecord option" where
  "Unmarshal E buf = (if buf = [] then Some zeroRecord else decode E buf)"

text \<open>The Go idiom \<^verbatim>\<open>if err != nil { return err }\<close>.\<close>

definition andThen ::
  "error option \<times> state \<Rightarrow> (state \<Rightarrow> error option \<times> state) \<Rightarrow> error option \<times> state" where
  "andThen r f = (case r of (Some err, w) \<Rightarrow> (Some err, w) | (None, w) \<Rightarrow> f w)"

subsection \<open>Address resolution and agent start-up\<close>

text \<open>The loop of \<^verbatim>\<open>getBindAddr\<close> over the interface's addresses.\<close>

fun getBindAddr_loop :: "env \<Rightarrow> addr list \<Rightarrow> error + string" where
  "getBindAddr_loop E [] = Inl ErrNoBindAddr"
| "getBindAddr_loop E (OtherAddr # as) = getBindAddr_loop E as"
| "getBindAddr_loop E (IPNetAddr addrIP # as) =
     (if isLinkLocalUnicast E addrIP then getBindAddr_loop E as
      else Inr (ipString E addrIP))"

definition getBindAddr :: "env \<Rightarrow> string \<Rightarrow> error + string" where
  "getBindAddr E ifaceName =
     (case interfaceByName E ifaceName of
        Inl err \<Rightarrow> Inl (ErrFindInterface ifaceName err)
      | Inr ifc \<Rightarrow>
          (case ifaceAddrs ifc of
             Inl err \<Rightarrow> Inl (ErrInterfaceAddrs err)
           | Inr addrs \<Rightarrow> getBindAddr_loop E addrs))"

definition resolveAddr :: "env \<Rightarrow> string \<Rightarrow> error + string" where
  "resolveAddr E addrOrInterface =
     (if parseIP E addrOrInterface \<noteq> [] then Inr addrOrInterface
      else getBindAddr E addrOrInterface)"

text \<open>
  \<^verbatim>\<open>agentInit\<close>. A store that \<^verbatim>\<open>networkdb.New\<close> has just created holds no entry.
\<close>

definition agentInit :: "env \<Rightarrow> state \<Rightarrow> string \<Rightarrow> error option \<times> state" where
  "agentInit E w bindAddrOrInterface =
     (if \<not> isAgentCfg w then (None, w)
      else
        (case resolveAddr E bindAddrOrInterface of
           Inl err \<Rightarrow> (Some err, w)
         | Inr bindAddr' \<Rightarrow>
             andThen (callExt E (ENewDB bindAddr' (hostname E)) w)
               (\<lambda>w1.
                  (case Watch ''endpoint_table'' [] [] (w1\<lparr>dbEntries := []\<rparr>) of
                     (cancel, w2) \<Rightarrow>
                       (None,
                        emit (ESpawn cancel EpTableHandler)
                          (w2\<lparr>agentOf := Some \<lparr>bindAddr = bindAddr', epTblCancel = cancel,
                                  driverCancelFuncs = Map.empty\<rparr>\<rparr>))))))"

subsection \<open>Eligibility and network membership\<close>

definition isClusterEligible :: "state \<Rightarrow> network \<Rightarrow> bool" where
  "isClusterEligible w n =
     (if driverScope n \<noteq> GlobalScope then False
      else if agentOf w = None then False
      else True)"

definition joinCluster :: "env \<Rightarrow> state \<Rightarrow> network \<Rightarrow> error option \<times> state" where
  "joinCluster E w n =
     (if \<not> isClusterEligible w n then (None, w)
      else callExt E (EJoinNetwork (netID n)) w)"

definition leaveCluster :: "env \<Rightarrow> state \<Rightarrow> network \<Rightarrow> error option \<times> state" where
  "leaveCluster E w n =
     (if \<not> isClusterEligible w n then (None, w)
      else callExt E (ELeaveNetwork (netID n)) w)"

subsection \<open>Publishing and retracting an endpoint\<close>

text \<open>
  Lines 171 to 198 of \<^verbatim>\<open>addToCluster\<close>, the body of the test on anonymity and address;
  \<open>a\<close> is the address \<^verbatim>\<open>ep.Iface().Address()\<close>.
\<close>

definition addToCluster_record ::
  "env \<Rightarrow> state \<Rightarrow> network \<Rightarrow> endpoint \<Rightarrow> IPNet \<Rightarrow> error option \<times> state" where
  "addToCluster_record E w n ep a =
     (let ports = (if svcID ep \<noteq> [] \<and> ingress n then ingressPorts ep else []);
          epRec = \<lparr>Name = epName ep, ServiceName = svcName ep, ServiceID = svcID ep,
                   VirtualIP = ipString E (virtualIP ep), IngressPorts = ports,
                   EndpointIP = ipString E (ipOf a)\<rparr>
      in
        andThen
          (if svcID ep \<noteq> []
           then callExt E (EAddServiceBinding (svcName ep) (svcID ep) (netID n) (epID ep)
                  (virtualIP ep) ports (ipOf a)) w
           else (None, w))
          (\<lambda>w1. andThen (callExt E (EMarshal epRec) w1)
             (\<lambda>w2. CreateEntry E ''endpoint_table'' (netID n) (epID ep) (marshal E epRec) w2)))"

text \<open>The loop over the driver table entries, lines 201 to 205.\<close>

fun addToCluster_entries ::
  "env \<Rightarrow> string \<Rightarrow> tableEntry list \<Rightarrow> state \<Rightarrow> error option \<times> state" where
  "addToCluster_entries E nid [] w = (None, w)"
| "addToCluster_entries E nid (te # tes) w =
     andThen (CreateEntry E (tableName te) nid (key te) (entryValue te) w)
       (addToCluster_entries E nid tes)"

text \<open>
  \<^verbatim>\<open>addToCluster\<close>. The loop reads \<^verbatim>\<open>ep.joinInfo.driverTableEntries\<close> with no test of
  the pointer: a nil \<^verbatim>\<open>joinInfo\<close> is a run-time panic.
\<close>

definition addToCluster :: "env \<Rightarrow> state \<Rightarrow> network \<Rightarrow> endpoint \<Rightarrow> error option \<times> state" where
  "addToCluster E w n ep =
     (if \<not> isClusterEligible w n then (None, w)
      else
        andThen
          (if \<not> isAnonymous ep
           then (case ifaceAddress ep of
                   Some a \<Rightarrow> addToCluster_record E w n ep a
                 | None \<Rightarrow> (None, w))
           else (None, w))
          (\<lambda>w1.
             (case joinInfo ep of
                None \<Rightarrow> (Some NilPointerDereference, w1)
              | Some ji \<Rightarrow> addToCluster_entries E (netID n) (driverTableEntries ji) w1)))"

fun deleteFromCluster_entries ::
  "env \<Rightarrow> string \<Rightarrow> tableEntry list \<Rightarrow> state \<Rightarrow> error option \<times> state" where
  "deleteFromCluster_entries E nid [] w = (None, w)"
| "deleteFromCluster_entries E nid (te # tes) w =
     andThen (DeleteEntry E (tableName te) nid (key te) w)
       (deleteFromCluster_entries E nid tes)"

text \<open>Lines 218 to 231 of \<^verbatim>\<open>deleteFromCluster\<close>, the body of the test on anonymity.\<close>

definition deleteFromCluster_record ::
  "env \<Rightarrow> state \<Rightarrow> network \<Rightarrow> endpoint \<Rightarrow> error option \<times> state" where
  "deleteFromCluster_record E w n ep =
     andThen
       (if svcID ep \<noteq> []
        then (case ifaceAddress ep of
                Some a \<Rightarrow>
                  callExt E (ERmServiceBinding (svcName ep) (svcID ep) (netID n) (epID ep)
                    (virtualIP ep) (if ingress n then ingressPorts ep else []) (ipOf a)) w
              | None \<Rightarrow> (None, w))
        else (None, w))
       (DeleteEntry E ''endpoint_table'' (netID n) (epID ep))"

definition deleteFromCluster ::
  "env \<Rightarrow> state \<Rightarrow> network \<Rightarrow> endpoint \<Rightarrow> error option \<times> state" where
  "deleteFromCluster E w n ep =
     (if \<not> isClusterEligible w n then (None, w)
      else
        andThen
          (if \<not> isAnonymous ep then deleteFromCluster_record E w n ep else (None, w))
          (\<lambda>w1.
             (case joinInfo ep of
                None \<Rightarrow> (None, w1)
              | Some ji \<Rightarrow> deleteFromCluster_entries E (netID n) (driverTableEntries ji) w1)))"

subsection \<open>Driver watches\<close>

definition cancelFuncsOf :: "agent \<Rightarrow> string \<Rightarrow> nat list" where
  "cancelFuncsOf a nid = (case driverCancelFuncs a nid of None \<Rightarrow> [] | Some fs \<Rightarrow> fs)"

text \<open>
  Line 256: \<^verbatim>\<open>driverCancelFuncs[nid] = append(driverCancelFuncs[nid], cancel)\<close>.
  The test of eligibility has found the agent, so the branch without one is not taken.
\<close>

definition appendCancelFunc :: "string \<Rightarrow> nat \<Rightarrow> state \<Rightarrow> state" where
  "appendCancelFunc nid cancel w =
     (case agentOf w of
        None \<Rightarrow> w
      | Some a \<Rightarrow>
          (emit (ESetCancelFuncs nid (cancelFuncsOf a nid @ [cancel])) w)
            \<lparr>agentOf := Some (a\<lparr>driverCancelFuncs :=
               (driverCancelFuncs a)(nid \<mapsto> cancelFuncsOf a nid @ [cancel])\<rparr>)\<rparr>)"

text \<open>The visitor that \<^verbatim>\<open>addDriverWatches\<close> hands to \<^verbatim>\<open>WalkTable\<close>, lines 266 to 269.\<close>

definition walkVisitor ::
  "network \<Rightarrow> string \<Rightarrow> string \<Rightarrow> string \<Rightarrow> bytes \<Rightarrow> state \<Rightarrow> bool \<times> state" where
  "walkVisitor n tname nid k v w = (False, emit (EEventNotify Create (netID n) tname k v) w)"

fun addDriverWatches_loop :: "env \<Rightarrow> network \<Rightarrow> string list \<Rightarrow> state \<Rightarrow> state" where
  "addDriverWatches_loop E n [] w = w"
| "addDriverWatches_loop E n (tname # rest) w =
     (case Watch tname (netID n) [] w of
        (cancel, w1) \<Rightarrow>
          (let w2 = emit EUnlock (appendCancelFunc (netID n) cancel (emit ELock w1));
               w3 = emit (ESpawn cancel (DriverTableHandler (netID n))) w2
           in
             (case callExt E (EResolveDriver (networkType n)) w3 of
                (Some err, w4) \<Rightarrow> emit (ELogError ''Could not resolve driver'') w4
              | (None, w4) \<Rightarrow>
                  addDriverWatches_loop E n rest (WalkTable tname (walkVisitor n tname) w4))))"

definition addDriverWatches :: "env \<Rightarrow> state \<Rightarrow> network \<Rightarrow> state" where
  "addDriverWatches E w n =
     (if \<not> isClusterEligible w n then w
      else addDriverWatches_loop E n (driverTables n) w)"

fun cancelAll :: "nat list \<Rightarrow> state \<Rightarrow> state" where
  "cancelAll [] w = w"
| "cancelAll (cancel # rest) w = cancelAll rest (emit (ECancel cancel) w)"

definition cancelDriverWatches :: "state \<Rightarrow> network \<Rightarrow> state" where
  "cancelDriverWatches w n =
     (if \<not> isClusterEligible w n then w
      else
        (case agentOf w of
           None \<Rightarrow> w
         | Some a \<Rightarrow>
             (let cancelFuncs = cancelFuncsOf a (netID n);
                  w1 = emit ELock w;
                  w2 = (emit (EDeleteCancelFuncs (netID n)) w1)
                         \<lparr>agentOf := Some (a\<lparr>driverCancelFuncs :=
                            (driverCancelFuncs a)(netID n := None)\<rparr>)\<rparr>;
                  w3 = emit EUnlock w2
              in cancelAll cancelFuncs w3)))"

subsection \<open>Event dispatch\<close>

text \<open>
  \<^verbatim>\<open>handleTableEvents\<close>: the channel is the list of the events sent on it before it is
  closed; the loop hands each to the handler and returns when the channel is closed.
\<close>

fun handleTableEvents :: "(state \<Rightarrow> event \<Rightarrow> state) \<Rightarrow> state \<Rightarrow> event list \<Rightarrow> state" where
  "handleTableEvents fn w [] = w"
| "handleTableEvents fn w (ev # ch) = handleTableEvents fn (fn w ev) ch"

definition handleDriverTableEvent :: "env \<Rightarrow> network \<Rightarrow> state \<Rightarrow> event \<Rightarrow> state" where
  "handleDriverTableEvent E n w ev =
     (case callExt E (EResolveDriver (networkType n)) w of
        (Some err, w1) \<Rightarrow> emit (ELogError ''Could not resolve driver'') w1
      | (None, w1) \<Rightarrow>
          (case ev of
             CreateEvent e \<Rightarrow>
               emit (EEventNotify Create (netID n) (Table e) (Key e) (evValue e)) w1
           | DeleteEvent e \<Rightarrow>
               emit (EEventNotify Delete (netID n) (Table e) (Key e) (evValue e)) w1
           | UpdateEvent e \<Rightarrow>
               emit (EEventNotify Delete (netID n) (Table e) (Key e) (evValue e)) w1))"

text \<open>
  The type switch of \<^verbatim>\<open>handleEpTableEvent\<close>, lines 346 to 358: network id, endpoint id,
  value and the add flag, and the state after the switch. The case of an update event
  logs and assigns nothing, so the four variables keep their zero values.
\<close>

definition epEventFields :: "state \<Rightarrow> event \<Rightarrow> (string \<times> string \<times> bytes \<times> bool) \<times> state" where
  "epEventFields w ev =
     (case ev of
        CreateEvent e \<Rightarrow> ((NetworkID e, Key e, evValue e, True), w)
      | DeleteEvent e \<Rightarrow> ((NetworkID e, Key e, evValue e, False), w)
      | UpdateEvent e \<Rightarrow>
          (([], [], [], False), emit (ELogError ''Unexpected update service table event'') w))"

text \<open>Lines 360 to 403: the handler after the type switch.\<close>

definition handleEpTableEvent_body ::
  "env \<Rightarrow> string \<Rightarrow> string \<Rightarrow> bytes \<Rightarrow> bool \<Rightarrow> state \<Rightarrow> state" where
  "handleEpTableEvent_body E nid eid val isAdd w0 =
     (let w1 = emit (ENetworkByID nid) w0 in
      case networks w1 nid of
        None \<Rightarrow> emit (ELogError ''Could not find network'') w1
      | Some n \<Rightarrow>
          (let w2 = emit (EUnmarshal val) w1 in
           case Unmarshal E val of
             None \<Rightarrow> emit (ELogError ''Failed to unmarshal service table value'') w2
           | Some epRec \<Rightarrow>
               (let name = Name epRec;
                    vip = parseIP E (VirtualIP epRec);
                    ip = parseIP E (EndpointIP epRec)
                in
                  if name = [] \<or> ip = []
                  then emit (ELogError ''Invalid endpoint name/ip received'') w2
                  else if isAdd then
                    (case (if ServiceID epRec \<noteq> []
                           then callExt E (EAddServiceBinding (ServiceName epRec)
                                  (ServiceID epRec) nid eid vip (IngressPorts epRec) ip) w2
                           else (None, w2)) of
                       (Some err, w3) \<Rightarrow>
                         emit (ELogError ''Failed adding service binding'') w3
                     | (None, w3) \<Rightarrow> emit (EAddSvcRecords (netID n) name ip) w3)
                  else
                    (case (if ServiceID epRec \<noteq> []
                           then callExt E (ERmServiceBinding (ServiceName epRec)
                                  (ServiceID epRec) nid eid vip (IngressPorts epRec) ip) w2
                           else (None, w2)) of
                       (Some err, w3) \<Rightarrow>
                         emit (ELogError ''Failed adding service binding'') w3
                     | (None, w3) \<Rightarrow> emit (EDeleteSvcRecords (netID n) name ip) w3))))"

definition handleEpTableEvent :: "env \<Rightarrow> state \<Rightarrow> event \<Rightarrow> state" where
  "handleEpTableEvent E w ev =
     (case epEventFields w ev of
        ((nid, eid, val, isAdd), w0) \<Rightarrow> handleEpTableEvent_body E nid eid val isAdd w0)"

subsection \<open>Notions used in the statements\<close>

text \<open>The value an event carries, whatever its kind.\<close>

definition eventValue :: "event \<Rightarrow> bytes" where
  "eventValue ev =
     (case ev of CreateEvent e \<Rightarrow> evValue e | DeleteEvent e \<Rightarrow> evValue e
      | UpdateEvent e \<Rightarrow> evValue e)"

text \<open>
  A value that the endpoint table handler rejects: it does not deserialize, or it
  deserializes to a record with an empty name or an endpoint address that does not parse.
\<close>

definition malformed :: "env \<Rightarrow> bytes \<Rightarrow> bool" where
  "malformed E val =
     (case Unmarshal E val of
        None \<Rightarrow> True
      | Some r \<Rightarrow> Name r = [] \<or> parseIP E (EndpointIP r) = [])"

text \<open>Logging, the network lookup and the deserialization: no binding, no name record.\<close>

definition harmless :: "effect \<Rightarrow> bool" where
  "harmless e =
     (case e of ELogError s \<Rightarrow> True | ENetworkByID nid \<Rightarrow> True | EUnmarshal b \<Rightarrow> True
      | _ \<Rightarrow> False)"

text \<open>The calls of \<^verbatim>\<open>addDriverWatches\<close> that concern watch registration and replay.\<close>

definition walkEffect :: "effect \<Rightarrow> bool" where
  "walkEffect e =
     (case e of EWatch t nid k \<Rightarrow> True | EWalkTable t \<Rightarrow> True
      | EEventNotify et nid t k v \<Rightarrow> True | _ \<Rightarrow> False)"

text \<open>The entries of one table that belong to one network.\<close>

definition networkRows ::
  "string \<Rightarrow> string \<Rightarrow> ((string \<times> string \<times> string) \<times> bytes) list \<Rightarrow>
   ((string \<times> string \<times> string) \<times> bytes) list" where
  "networkRows tname nid es = filter (\<lambda>r. fst (fst r) = tname \<and> fst (snd (fst r)) = nid) es"

definition createNotification ::
  "string \<Rightarrow> string \<Rightarrow> (string \<times> string \<times> string) \<times> bytes \<Rightarrow> effect" where
  "createNotification nid tname r = EEventNotify Create nid tname (snd (snd (fst r))) (snd r)"

definition isRmServiceBinding :: "effect \<Rightarrow> bool" where
  "isRmServiceBinding e =
     (case e of ERmServiceBinding sn si ni ei vip ps ip \<Rightarrow> True | _ \<Rightarrow> False)"

definition isResolveDriver :: "effect \<Rightarrow> bool" where
  "isResolveDriver e = (case e of EResolveDriver t \<Rightarrow> True | _ \<Rightarrow> False)"

subsection \<open>Concrete inputs\<close>

text \<open>
  An environment whose collaborators fail exactly on the calls that \<open>failing\<close> selects,
  one global-scope network, a controller with and without an agent, and an endpoint of a
  service, for the concrete runs below. The environment's codec decodes the one buffer
  \<open>exGoodBytes\<close> and rejects every other non-empty buffer; its \<open>marshal\<close> returns a fixed
  one-byte buffer, and its address functions know the one address 10.0.0.5.
\<close>

text \<open>
  A record of a service endpoint and its protobuf encoding: the string fields 1 (name),
  2 (service name), 3 (service id) and 5 (endpoint address), each as tag, length and
  bytes; the empty fields are not encoded.
\<close>

definition exGoodRecord :: EndpointRecord where
  "exGoodRecord = \<lparr>Name = ''web'', ServiceName = ''svc'', ServiceID = ''s1'', VirtualIP = [],
     IngressPorts = [], EndpointIP = ''10.0.0.5''\<rparr>"

definition exGoodBytes :: bytes where
  "exGoodBytes = [10, 3, 119, 101, 98, 18, 3, 115, 118, 99, 26, 2, 115, 49,
     42, 8, 49, 48, 46, 48, 46, 48, 46, 53]"

definition exEnvWith :: "(effect \<Rightarrow> bool) \<Rightarrow> env" where
  "exEnvWith failing =
     \<lparr>extFails = (\<lambda>h e. if failing e then Some ''failed'' else None),
      parseIP = (\<lambda>s. if s = ''10.0.0.5'' then [10, 0, 0, 5] else []),
      ipString = (\<lambda>ip. if ip = [10, 0, 0, 5] then ''10.0.0.5'' else ''<nil>''),
      isLinkLocalUnicast = (\<lambda>ip. take 2 ip = [169, 254]),
      interfaceByName = (\<lambda>s. if s = ''eth0''
         then Inr \<lparr>ifaceAddrs = Inr [IPNetAddr [169, 254, 0, 1], IPNetAddr [10, 0, 0, 5]]\<rparr>
         else Inl ''no such network interface''),
      hostname = ''node1'',
      marshal = (\<lambda>r. [1]),
      decode = (\<lambda>b. if b = exGoodBytes then Some exGoodRecord else None)\<rparr>"

definition exEnv :: env where
  "exEnv = exEnvWith (\<lambda>e. False)"

definition exNet :: network where
  "exNet = \<lparr>netID = ''n1'', networkType = ''overlay'', driverScope = ''global'',
            ingress = False, driverTables = [''t1'']\<rparr>"

definition exAgent :: agent where
  "exAgent = \<lparr>bindAddr = ''10.0.0.5'', epTblCancel = 0,
              driverCancelFuncs = [''n1'' \<mapsto> [1, 2]]\<rparr>"

definition exState :: state where
  "exState = \<lparr>isAgentCfg = True, agentOf = Some exAgent, networks = [''n1'' \<mapsto> exNet],
              dbEntries = [((''t1'', ''n1'', ''k1''), [7])], dbWatches = 3, trace = []\<rparr>"

definition exStateNoAgent :: state where
  "exStateNoAgent = \<lparr>isAgentCfg = True, agentOf = None, networks = [''n1'' \<mapsto> exNet],
              dbEntries = [], dbWatches = 0, trace = []\<rparr>"

definition exEp :: endpoint where
  "exEp = \<lparr>epID = ''e1'', epName = ''web'', isAnonymous = False, svcName = ''svc'',
           svcID = ''s1'', virtualIP = [10, 0, 0, 9], ingressPorts = [],
           ifaceAddress = Some \<lparr>ipOf = [10, 0, 0, 5], maskOf = [255, 255, 255, 0]\<rparr>,
           joinInfo = Some \<lparr>driverTableEntries =
             [\<lparr>tableName = ''t1'', key = ''k2'', entryValue = [1]\<rparr>]\<rparr>\<rparr>"

definition exEpNoJoin :: endpoint where
  "exEpNoJoin = exEp\<lparr>joinInfo := None\<rparr>"

definition exBadEvent :: event where
  "exBadEvent = CreateEvent \<lparr>Table = ''endpoint_table'', NetworkID = ''n1'', Key = ''e8'',
     evValue = [2]\<rparr>"

definition exGoodEvent :: tableEvent where
  "exGoodEvent = \<lparr>Table = ''endpoint_table'', NetworkID = ''n1'', Key = ''e9'',
     evValue = exGoodBytes\<rparr>"

section \<open>Basic facts\<close>

subsection \<open>Sequencing and the trace\<close>

lemma andThen_simps [simp]:
  "andThen (Some err, w) f = (Some err, w)"
  "andThen (None, w) f = f w"
  by (simp_all add: andThen_def)

lemma andThen_fst:
  "fst (andThen r f) = (case fst r of Some err \<Rightarrow> Some err | None \<Rightarrow> fst (f (snd r)))"
  by (cases r) (simp add: andThen_def split: option.splits)

lemma trace_emit [simp]: "trace (emit e w) = trace w @ [e]"
  by (simp add: emit_def)

lemma emit_fields [simp]:
  "agentOf (emit e w) = agentOf w" "dbEntries (emit e w) = dbEntries w"
  "networks (emit e w) = networks w" "dbWatches (emit e w) = dbWatches w"
  "isAgentCfg (emit e w) = isAgentCfg w"
  by (simp_all add: emit_def)

lemma newEffects_append [simp]: "trace w' = trace w @ es \<Longrightarrow> newEffects w w' = es"
  by (simp add: newEffects_def)

subsection \<open>Errors of the collaborators\<close>

text \<open>A collaborator's error is never the panic.\<close>

lemma callExt_fst:
  "fst (callExt E e w) = None \<or> (\<exists>m. fst (callExt E e w) = Some (ExtError m))"
  by (cases "extFails E (trace w) e") (simp_all add: callExt_def)

lemma callExt_ok: "\<forall>h e. extFails E h e = None \<Longrightarrow> callExt E e w = (None, emit e w)"
  by (simp add: callExt_def)

lemma CreateEntry_fst:
  "fst (CreateEntry E t nid k v w) = None \<or>
   (\<exists>m. fst (CreateEntry E t nid k v w) = Some (ExtError m))"
  by (cases "extFails E (trace w) (ECreateEntry t nid k v)")
    (simp_all add: CreateEntry_def callExt_def)

lemma CreateEntry_ok:
  "\<forall>h e. extFails E h e = None \<Longrightarrow> fst (CreateEntry E t nid k v w) = None"
  by (simp add: CreateEntry_def callExt_def)

lemma DeleteEntry_fst:
  "fst (DeleteEntry E t nid k w) = None \<or>
   (\<exists>m. fst (DeleteEntry E t nid k w) = Some (ExtError m))"
  by (cases "extFails E (trace w) (EDeleteEntry t nid k)")
    (simp_all add: DeleteEntry_def callExt_def)

lemma andThen_extOnly:
  assumes "fst r = None \<or> (\<exists>m. fst r = Some (ExtError m))"
    and "\<And>w. fst (f w) = None \<or> (\<exists>m. fst (f w) = Some (ExtError m))"
  shows "fst (andThen r f) = None \<or> (\<exists>m. fst (andThen r f) = Some (ExtError m))"
  using assms by (auto simp: andThen_fst split: option.splits)

lemma andThen_ok:
  assumes "fst r = None" and "\<And>w. fst (f w) = None"
  shows "fst (andThen r f) = None"
  using assms by (simp add: andThen_fst)

lemma addToCluster_record_fst:
  "fst (addToCluster_record E w n ep a) = None \<or>
   (\<exists>m. fst (addToCluster_record E w n ep a) = Some (ExtError m))"
  unfolding addToCluster_record_def Let_def
  by (intro andThen_extOnly callExt_fst CreateEntry_fst) (simp add: callExt_fst)

lemma addToCluster_record_ok:
  "\<forall>h e. extFails E h e = None \<Longrightarrow> fst (addToCluster_record E w n ep a) = None"
  unfolding addToCluster_record_def Let_def
  by (intro andThen_ok) (simp_all add: callExt_ok CreateEntry_ok)

lemma deleteFromCluster_record_fst:
  "fst (deleteFromCluster_record E w n ep) = None \<or>
   (\<exists>m. fst (deleteFromCluster_record E w n ep) = Some (ExtError m))"
  unfolding deleteFromCluster_record_def
  by (intro andThen_extOnly DeleteEntry_fst) (simp add: callExt_fst split: option.splits)

subsection \<open>The store operations\<close>

lemma CreateEntry_Some:
  "extFails E (trace w) (ECreateEntry t nid k v) = Some m \<Longrightarrow>
   CreateEntry E t nid k v w = (Some (ExtError m), emit (ECreateEntry t nid k v) w)"
  by (simp add: CreateEntry_def callExt_def)

lemma CreateEntry_None:
  "extFails E (trace w) (ECreateEntry t nid k v) = None \<Longrightarrow>
   CreateEntry E t nid k v w =
     (None, (emit (ECreateEntry t nid k v) w)
        \<lparr>dbEntries := AList.update (t, nid, k) v (dbEntries w)\<rparr>)"
  by (simp add: CreateEntry_def callExt_def)

lemma DeleteEntry_Some:
  "extFails E (trace w) (EDeleteEntry t nid k) = Some m \<Longrightarrow>
   DeleteEntry E t nid k w = (Some (ExtError m), emit (EDeleteEntry t nid k) w)"
  by (simp add: DeleteEntry_def callExt_def)

lemma DeleteEntry_None:
  "extFails E (trace w) (EDeleteEntry t nid k) = None \<Longrightarrow>
   DeleteEntry E t nid k w =
     (None, (emit (EDeleteEntry t nid k) w)
        \<lparr>dbEntries := AList.delete (t, nid, k) (dbEntries w)\<rparr>)"
  by (simp add: DeleteEntry_def callExt_def)

subsection \<open>Cancelling watches\<close>

lemma cancelAll_trace: "trace (cancelAll hs w) = trace w @ map ECancel hs"
  by (induction hs arbitrary: w) simp_all

lemma cancelAll_agentOf: "agentOf (cancelAll hs w) = agentOf w"
  by (induction hs arbitrary: w) simp_all

lemma count_list_ECancel: "count_list (map ECancel hs) (ECancel h) = count_list hs h"
  by (induction hs) simp_all

subsection \<open>Publishing\<close>

lemma addToCluster_entries_trace:
  "\<exists>es. trace (snd (addToCluster_entries E nid tes w)) = trace w @ es \<and>
     (\<forall>e \<in> set es. \<exists>t k v. e = ECreateEntry t nid k v)"
proof (induction tes arbitrary: w)
  case Nil
  show ?case by simp
next
  case (Cons te tes)
  let ?c = "ECreateEntry (tableName te) nid (key te) (entryValue te)"
  show ?case
  proof (cases "extFails E (trace w) ?c")
    case (Some m)
    have "trace (snd (addToCluster_entries E nid (te # tes) w)) = trace w @ [?c]"
      by (simp add: CreateEntry_Some [OF Some])
    then show ?thesis
      by (intro exI [of _ "[?c]"]) simp
  next
    case None
    let ?w1 = "(emit ?c w)\<lparr>dbEntries :=
        AList.update (tableName te, nid, key te) (entryValue te) (dbEntries w)\<rparr>"
    obtain es where es: "trace (snd (addToCluster_entries E nid tes ?w1)) = trace ?w1 @ es"
      "\<forall>e \<in> set es. \<exists>t k v. e = ECreateEntry t nid k v"
      using Cons.IH [of ?w1] by blast
    have "trace (snd (addToCluster_entries E nid (te # tes) w)) = trace w @ (?c # es)"
      using es(1) by (simp add: CreateEntry_None [OF None])
    then show ?thesis
      using es(2) by (intro exI [of _ "?c # es"]) simp
  qed
qed

subsection \<open>The endpoint table handler\<close>

lemma malformed_Nil: "malformed E []"
  by (simp add: malformed_def Unmarshal_def zeroRecord_def)

text \<open>The rest of the handler, after the type switch.\<close>

lemma handleEpTableEvent_rejects:
  assumes "malformed E val"
  shows "\<exists>es. handleEpTableEvent_body E nid eid val isAdd w0 = w0\<lparr>trace := trace w0 @ es\<rparr> \<and>
     (\<forall>e \<in> set es. harmless e)"
proof (cases "networks w0 nid")
  case None
  then show ?thesis
    by (intro exI [of _ "[ENetworkByID nid, ELogError ''Could not find network'']"])
      (simp add: handleEpTableEvent_body_def emit_def harmless_def)
next
  case (Some n)
  note net = Some
  show ?thesis
  proof (cases "Unmarshal E val")
    case None
    then show ?thesis
      using net
      by (intro exI [of _ "[ENetworkByID nid, EUnmarshal val,
            ELogError ''Failed to unmarshal service table value'']"])
        (simp add: handleEpTableEvent_body_def emit_def harmless_def)
  next
    case (Some r)
    with assms have "Name r = [] \<or> parseIP E (EndpointIP r) = []"
      by (simp add: malformed_def)
    then show ?thesis
      using net Some
      by (intro exI [of _ "[ENetworkByID nid, EUnmarshal val,
            ELogError ''Invalid endpoint name/ip received'']"])
        (simp add: handleEpTableEvent_body_def emit_def harmless_def)
  qed
qed

lemma handleEpTableEvent_malformed_run:
  assumes "malformed E (eventValue ev)"
  shows "\<exists>es. handleEpTableEvent E w ev = w\<lparr>trace := trace w @ es\<rparr> \<and>
     (\<forall>e \<in> set es. harmless e)"
proof (cases ev)
  case (CreateEvent e)
  with assms have m: "malformed E (evValue e)"
    by (simp add: eventValue_def)
  show ?thesis
    using handleEpTableEvent_rejects [OF m, of "NetworkID e" "Key e" True w]
    by (simp add: handleEpTableEvent_def epEventFields_def CreateEvent)
next
  case (DeleteEvent e)
  with assms have m: "malformed E (evValue e)"
    by (simp add: eventValue_def)
  show ?thesis
    using handleEpTableEvent_rejects [OF m, of "NetworkID e" "Key e" False w]
    by (simp add: handleEpTableEvent_def epEventFields_def DeleteEvent)
next
  case (UpdateEvent e)
  let ?l = "ELogError ''Unexpected update service table event''"
  obtain es where es:
    "handleEpTableEvent E w ev = (emit ?l w)\<lparr>trace := trace (emit ?l w) @ es\<rparr>"
    "\<forall>e \<in> set es. harmless e"
    using handleEpTableEvent_rejects [OF malformed_Nil, of E "[]" "[]" False "emit ?l w"]
    by (auto simp: handleEpTableEvent_def epEventFields_def UpdateEvent)
  have "handleEpTableEvent E w ev = w\<lparr>trace := trace w @ (?l # es)\<rparr>"
    by (simp add: es(1) emit_def)
  moreover have "\<forall>e \<in> set (?l # es). harmless e"
    using es(2) by (simp add: harmless_def)
  ultimately show ?thesis
    by blast
qed

text \<open>The handler leaves the controller's networks as they are.\<close>

lemma handleEpTableEvent_body_networks:
  "networks (handleEpTableEvent_body E nid eid val isAdd w0) = networks w0"
proof (cases "networks w0 nid")
  case None
  then show ?thesis by (simp add: handleEpTableEvent_body_def)
next
  case (Some n)
  note net = Some
  show ?thesis
  proof (cases "Unmarshal E val")
    case None
    then show ?thesis using net by (simp add: handleEpTableEvent_body_def)
  next
    case (Some r)
    show ?thesis
      using net Some
      by (cases "extFails E (trace w0 @ [ENetworkByID nid, EUnmarshal val])
            (EAddServiceBinding (ServiceName r) (ServiceID r) nid eid (parseIP E (VirtualIP r))
              (IngressPorts r) (parseIP E (EndpointIP r)))";
          cases "extFails E (trace w0 @ [ENetworkByID nid, EUnmarshal val])
            (ERmServiceBinding (ServiceName r) (ServiceID r) nid eid (parseIP E (VirtualIP r))
              (IngressPorts r) (parseIP E (EndpointIP r)))")
        (simp_all add: handleEpTableEvent_body_def callExt_def Let_def)
  qed
qed

lemma handleEpTableEvent_networks: "networks (handleEpTableEvent E w ev) = networks w"
  by (cases ev)
    (simp_all add: handleEpTableEvent_def epEventFields_def handleEpTableEvent_body_networks)

lemma handleTableEvents_networks:
  "networks (handleTableEvents (handleEpTableEvent E) w ch) = networks w"
  by (induction ch arbitrary: w) (simp_all add: handleEpTableEvent_networks)

lemma handleTableEvents_snoc:
  "handleTableEvents fn w (ch @ [ev]) = fn (handleTableEvents fn w ch) ev"
  by (induction ch arbitrary: w) simp_all

text \<open>What the handler does with a well-formed create or delete event, in any state.\<close>

lemma handleEpTableEvent_create_good:
  assumes "networks w0 (NetworkID e2) = Some n2" "Unmarshal E (evValue e2) = Some r2"
    "Name r2 \<noteq> []" "parseIP E (EndpointIP r2) \<noteq> []"
  shows "trace (handleEpTableEvent E w0 (CreateEvent e2)) =
     trace w0 @ ENetworkByID (NetworkID e2) # EUnmarshal (evValue e2) #
       (if ServiceID r2 = []
        then [EAddSvcRecords (netID n2) (Name r2) (parseIP E (EndpointIP r2))]
        else EAddServiceBinding (ServiceName r2) (ServiceID r2) (NetworkID e2) (Key e2)
               (parseIP E (VirtualIP r2)) (IngressPorts r2) (parseIP E (EndpointIP r2)) #
             (case extFails E (trace w0 @ [ENetworkByID (NetworkID e2), EUnmarshal (evValue e2)])
                     (EAddServiceBinding (ServiceName r2) (ServiceID r2) (NetworkID e2) (Key e2)
                        (parseIP E (VirtualIP r2)) (IngressPorts r2)
                        (parseIP E (EndpointIP r2))) of
                None \<Rightarrow> [EAddSvcRecords (netID n2) (Name r2) (parseIP E (EndpointIP r2))]
              | Some m \<Rightarrow> [ELogError ''Failed adding service binding'']))"
  using assms
  by (cases "extFails E (trace w0 @ [ENetworkByID (NetworkID e2), EUnmarshal (evValue e2)])
         (EAddServiceBinding (ServiceName r2) (ServiceID r2) (NetworkID e2) (Key e2)
            (parseIP E (VirtualIP r2)) (IngressPorts r2) (parseIP E (EndpointIP r2)))")
    (simp_all add: handleEpTableEvent_def handleEpTableEvent_body_def epEventFields_def
      callExt_def Let_def)

lemma handleEpTableEvent_delete_good:
  assumes "networks w0 (NetworkID e2) = Some n2" "Unmarshal E (evValue e2) = Some r2"
    "Name r2 \<noteq> []" "parseIP E (EndpointIP r2) \<noteq> []"
  shows "trace (handleEpTableEvent E w0 (DeleteEvent e2)) =
     trace w0 @ ENetworkByID (NetworkID e2) # EUnmarshal (evValue e2) #
       (if ServiceID r2 = []
        then [EDeleteSvcRecords (netID n2) (Name r2) (parseIP E (EndpointIP r2))]
        else ERmServiceBinding (ServiceName r2) (ServiceID r2) (NetworkID e2) (Key e2)
               (parseIP E (VirtualIP r2)) (IngressPorts r2) (parseIP E (EndpointIP r2)) #
             (case extFails E (trace w0 @ [ENetworkByID (NetworkID e2), EUnmarshal (evValue e2)])
                     (ERmServiceBinding (ServiceName r2) (ServiceID r2) (NetworkID e2) (Key e2)
                        (parseIP E (VirtualIP r2)) (IngressPorts r2)
                        (parseIP E (EndpointIP r2))) of
                None \<Rightarrow> [EDeleteSvcRecords (netID n2) (Name r2) (parseIP E (EndpointIP r2))]
              | Some m \<Rightarrow> [ELogError ''Failed adding service binding'']))"
  using assms
  by (cases "extFails E (trace w0 @ [ENetworkByID (NetworkID e2), EUnmarshal (evValue e2)])
         (ERmServiceBinding (ServiceName r2) (ServiceID r2) (NetworkID e2) (Key e2)
            (parseIP E (VirtualIP r2)) (IngressPorts r2) (parseIP E (EndpointIP r2)))")
    (simp_all add: handleEpTableEvent_def handleEpTableEvent_body_def epEventFields_def
      callExt_def Let_def)

subsection \<open>What publishing and retracting leave in the store\<close>

lemma eligible_iff:
  "isClusterEligible w n \<longleftrightarrow> driverScope n = GlobalScope \<and> agentOf w \<noteq> None"
  by (simp add: isClusterEligible_def)

lemma andThen_NoneD:
  assumes "andThen r f = (None, w')"
  obtains w1 where "r = (None, w1)" "f w1 = (None, w')"
  using assms by (cases r) (auto simp: andThen_def split: option.splits)

lemma callExt_dbEntries [simp]: "dbEntries (snd (callExt E e w)) = dbEntries w"
  by (simp add: callExt_def)

lemma callExt_agentOf [simp]: "agentOf (snd (callExt E e w)) = agentOf w"
  by (simp add: callExt_def)

lemma CreateEntry_agentOf [simp]: "agentOf (snd (CreateEntry E t nid k v w)) = agentOf w"
  by (cases "extFails E (trace w) (ECreateEntry t nid k v)")
    (simp_all add: CreateEntry_Some CreateEntry_None)

lemma CreateEntry_other:
  "k' \<noteq> (t, nid, k) \<Longrightarrow>
   map_of (dbEntries (snd (CreateEntry E t nid k v w))) k' = map_of (dbEntries w) k'"
  by (cases "extFails E (trace w) (ECreateEntry t nid k v)")
    (simp_all add: CreateEntry_Some CreateEntry_None update_conv')

lemma DeleteEntry_done:
  assumes "DeleteEntry E t nid k w = (None, w')"
  shows "map_of (dbEntries w') = (map_of (dbEntries w))((t, nid, k) := None)"
proof (cases "extFails E (trace w) (EDeleteEntry t nid k)")
  case None
  with assms show ?thesis
    by (auto simp: DeleteEntry_None delete_conv')
next
  case (Some m)
  with assms show ?thesis
    by (simp add: DeleteEntry_Some)
qed

lemma andThen_agentOf:
  assumes "agentOf (snd r) = a" and "\<And>w1. agentOf (snd (f w1)) = agentOf w1"
  shows "agentOf (snd (andThen r f)) = a"
  using assms by (cases r) (auto simp: andThen_def split: option.splits)

lemma addToCluster_entries_agentOf:
  "agentOf (snd (addToCluster_entries E nid tes w)) = agentOf w"
proof (induction tes arbitrary: w)
  case Nil
  show ?case by simp
next
  case (Cons te tes)
  show ?case
    by (simp add: andThen_agentOf [OF CreateEntry_agentOf Cons.IH])
qed

lemma addToCluster_record_agentOf:
  "agentOf (snd (addToCluster_record E w n ep a)) = agentOf w"
  unfolding addToCluster_record_def Let_def
  by (intro andThen_agentOf) simp_all

lemma addToCluster_agentOf: "agentOf (snd (addToCluster E w n ep)) = agentOf w"
proof (cases "isClusterEligible w n")
  case False
  then show ?thesis by (simp add: addToCluster_def)
next
  case True
  have l: "agentOf (snd (case joinInfo ep of
                None \<Rightarrow> (Some NilPointerDereference, w1)
              | Some ji \<Rightarrow> addToCluster_entries E (netID n) (driverTableEntries ji) w1)) =
      agentOf w1" for w1
    by (cases "joinInfo ep") (simp_all add: addToCluster_entries_agentOf)
  have r: "agentOf (snd (if \<not> isAnonymous ep
           then (case ifaceAddress ep of
                   Some a \<Rightarrow> addToCluster_record E w n ep a
                 | None \<Rightarrow> (None, w))
           else (None, w))) = agentOf w"
    by (cases "ifaceAddress ep") (simp_all add: addToCluster_record_agentOf)
  show ?thesis
    using True by (simp add: addToCluster_def andThen_agentOf [OF r l])
qed

lemma addToCluster_entries_other:
  "k' \<notin> (\<lambda>te. (tableName te, nid, key te)) ` set tes \<Longrightarrow>
   map_of (dbEntries (snd (addToCluster_entries E nid tes w))) k' = map_of (dbEntries w) k'"
proof (induction tes arbitrary: w)
  case Nil
  show ?case by simp
next
  case (Cons te tes)
  have ne: "k' \<noteq> (tableName te, nid, key te)"
    and rest: "k' \<notin> (\<lambda>te. (tableName te, nid, key te)) ` set tes"
    using Cons.prems by auto
  obtain r w1 where c: "CreateEntry E (tableName te) nid (key te) (entryValue te) w = (r, w1)"
    by (cases "CreateEntry E (tableName te) nid (key te) (entryValue te) w")
  have w1: "map_of (dbEntries w1) k' = map_of (dbEntries w) k'"
    using CreateEntry_other [OF ne, of E "entryValue te" w] by (simp add: c)
  show ?case
  proof (cases r)
    case None
    then show ?thesis
      using Cons.IH [OF rest, of w1] w1 by (simp add: c)
  next
    case (Some err)
    then show ?thesis
      using w1 by (simp add: c)
  qed
qed

lemma deleteFromCluster_entries_done:
  "deleteFromCluster_entries E nid tes w = (None, w') \<Longrightarrow>
   (\<forall>te \<in> set tes. map_of (dbEntries w') (tableName te, nid, key te) = None) \<and>
   (\<forall>k. map_of (dbEntries w) k = None \<longrightarrow> map_of (dbEntries w') k = None)"
proof (induction tes arbitrary: w)
  case Nil
  then show ?case by simp
next
  case (Cons te tes)
  from Cons.prems obtain w1 where d: "DeleteEntry E (tableName te) nid (key te) w = (None, w1)"
    and l: "deleteFromCluster_entries E nid tes w1 = (None, w')"
    by (auto elim: andThen_NoneD)
  note m = DeleteEntry_done [OF d]
  note ih = Cons.IH [OF l]
  have a: "map_of (dbEntries w1) (tableName te, nid, key te) = None"
    by (simp add: m)
  have b: "map_of (dbEntries w1) k = None" if "map_of (dbEntries w) k = None" for k
    using that by (simp add: m)
  show ?case
    using ih a b by auto
qed

lemma deleteFromCluster_record_done:
  assumes "deleteFromCluster_record E w n ep = (None, w')"
  shows "map_of (dbEntries w') =
     (map_of (dbEntries w))((''endpoint_table'', netID n, epID ep) := None)"
proof -
  from assms obtain w1 where
    r: "(if svcID ep \<noteq> []
        then (case ifaceAddress ep of
                Some a \<Rightarrow>
                  callExt E (ERmServiceBinding (svcName ep) (svcID ep) (netID n) (epID ep)
                    (virtualIP ep) (if ingress n then ingressPorts ep else []) (ipOf a)) w
              | None \<Rightarrow> (None, w))
        else (None, w)) = (None, w1)"
    and d: "DeleteEntry E ''endpoint_table'' (netID n) (epID ep) w1 = (None, w')"
    unfolding deleteFromCluster_record_def by (rule andThen_NoneD)
  have "dbEntries w1 = dbEntries (snd (if svcID ep \<noteq> []
        then (case ifaceAddress ep of
                Some a \<Rightarrow>
                  callExt E (ERmServiceBinding (svcName ep) (svcID ep) (netID n) (epID ep)
                    (virtualIP ep) (if ingress n then ingressPorts ep else []) (ipOf a)) w
              | None \<Rightarrow> (None, w))
        else (None, w)))"
    by (simp only: r snd_conv)
  also have "\<dots> = dbEntries w"
    by (cases "ifaceAddress ep") simp_all
  finally show ?thesis
    using DeleteEntry_done [OF d] by simp
qed

subsection \<open>Registering and replaying driver tables\<close>

lemma walkEntries_walkVisitor:
  "walkEntries (walkVisitor n t) rows w =
     w\<lparr>trace := trace w @ map (createNotification (netID n) t) rows\<rparr>"
proof (induction rows arbitrary: w)
  case Nil
  show ?case by simp
next
  case (Cons r rows)
  obtain t' nid' k v where r: "r = ((t', nid', k), v)"
    by (metis prod.collapse)
  have "walkEntries (walkVisitor n t) (r # rows) w =
      walkEntries (walkVisitor n t) rows (emit (createNotification (netID n) t r) w)"
    by (simp add: r walkVisitor_def createNotification_def)
  then show ?case
    by (simp only: Cons.IH) (simp add: emit_def)
qed

lemma WalkTable_walkVisitor:
  "WalkTable t (walkVisitor n t) w =
     w\<lparr>trace := trace w @
        EWalkTable t # map (createNotification (netID n) t) (tableRows t (dbEntries w))\<rparr>"
  by (simp add: WalkTable_def walkEntries_walkVisitor emit_def)

lemma appendCancelFunc_trace:
  "\<exists>es. trace (appendCancelFunc nid c w) = trace w @ es \<and> filter walkEffect es = []"
proof (cases "agentOf w")
  case None
  then show ?thesis by (simp add: appendCancelFunc_def)
next
  case (Some a)
  then show ?thesis
    by (intro exI [of _ "[ESetCancelFuncs nid (cancelFuncsOf a nid @ [c])]"])
      (simp add: appendCancelFunc_def walkEffect_def)
qed

lemma appendCancelFunc_dbEntries [simp]:
  "dbEntries (appendCancelFunc nid c w) = dbEntries w"
  by (cases "agentOf w") (simp_all add: appendCancelFunc_def)

text \<open>One round of the loop of \<open>addDriverWatches\<close>, when the driver resolves.\<close>

lemma addDriverWatches_round:
  assumes drv: "\<forall>h. extFails E h (EResolveDriver (networkType n)) = None"
  shows "\<exists>w' es. addDriverWatches_loop E n (t # ts) w = addDriverWatches_loop E n ts w' \<and>
     trace w' = trace w @ es \<and> dbEntries w' = dbEntries w \<and>
     filter walkEffect es =
       EWatch t (netID n) [] # EWalkTable t #
         map (createNotification (netID n) t) (tableRows t (dbEntries w))"
proof -
  define w1 where "w1 = (emit (EWatch t (netID n) []) w)\<lparr>dbWatches := Suc (dbWatches w)\<rparr>"
  define w2 where "w2 = appendCancelFunc (netID n) (dbWatches w) (emit ELock w1)"
  define w4 where "w4 = emit (EResolveDriver (networkType n))
      (emit (ESpawn (dbWatches w) (DriverTableHandler (netID n))) (emit EUnlock w2))"
  define w5 where "w5 = WalkTable t (walkVisitor n t) w4"
  obtain es2 where es2: "trace w2 = trace (emit ELock w1) @ es2" "filter walkEffect es2 = []"
    unfolding w2_def using appendCancelFunc_trace by blast
  have step: "addDriverWatches_loop E n (t # ts) w = addDriverWatches_loop E n ts w5"
    using drv
    by (simp add: Watch_def callExt_def Let_def w1_def w2_def w4_def w5_def)
  have d4: "dbEntries w4 = dbEntries w"
    by (simp add: w4_def w2_def w1_def)
  have t4: "trace w4 = trace w @ EWatch t (netID n) [] # ELock # es2 @
      [EUnlock, ESpawn (dbWatches w) (DriverTableHandler (netID n)),
       EResolveDriver (networkType n)]"
    by (simp add: w4_def es2(1) w1_def)
  have t5: "trace w5 = trace w @ (EWatch t (netID n) [] # ELock # es2 @
      [EUnlock, ESpawn (dbWatches w) (DriverTableHandler (netID n)),
       EResolveDriver (networkType n)] @
      EWalkTable t # map (createNotification (netID n) t) (tableRows t (dbEntries w)))"
    by (simp add: w5_def WalkTable_walkVisitor t4 d4)
  have d5: "dbEntries w5 = dbEntries w"
    by (simp add: w5_def WalkTable_walkVisitor d4)
  have all: "filter walkEffect (map (createNotification (netID n) t) rows) =
      map (createNotification (netID n) t) rows" for rows
    by (induction rows) (simp_all add: walkEffect_def createNotification_def)
  have f: "filter walkEffect (EWatch t (netID n) [] # ELock # es2 @
      [EUnlock, ESpawn (dbWatches w) (DriverTableHandler (netID n)),
       EResolveDriver (networkType n)] @
      EWalkTable t # map (createNotification (netID n) t) (tableRows t (dbEntries w))) =
      EWatch t (netID n) [] # EWalkTable t #
         map (createNotification (netID n) t) (tableRows t (dbEntries w))"
    by (simp add: es2(2) all) (simp add: walkEffect_def)
  show ?thesis
    using step t5 d5 f by blast
qed

text \<open>
  What \<open>addDriverWatches\<close> registers and replays when the driver resolves, for any
  store: per declared table, in order, the watch, the walk, and one create notification
  for every entry of the table, of whatever network, under the id of this network.
\<close>

lemma addDriverWatches_loop_effects:
  assumes drv: "\<forall>h. extFails E h (EResolveDriver (networkType n)) = None"
  shows "\<exists>es. trace (addDriverWatches_loop E n ts w) = trace w @ es \<and>
     filter walkEffect es =
       concat (map (\<lambda>t. EWatch t (netID n) [] # EWalkTable t #
         map (createNotification (netID n) t) (tableRows t (dbEntries w))) ts)"
proof (induction ts arbitrary: w)
  case Nil
  show ?case by simp
next
  case (Cons t ts)
  obtain w' es where r: "addDriverWatches_loop E n (t # ts) w = addDriverWatches_loop E n ts w'"
    "trace w' = trace w @ es" "dbEntries w' = dbEntries w"
    "filter walkEffect es =
       EWatch t (netID n) [] # EWalkTable t #
         map (createNotification (netID n) t) (tableRows t (dbEntries w))"
    using addDriverWatches_round [OF drv, of t ts w] by blast
  obtain es' where r': "trace (addDriverWatches_loop E n ts w') = trace w' @ es'"
    "filter walkEffect es' =
       concat (map (\<lambda>t. EWatch t (netID n) [] # EWalkTable t #
         map (createNotification (netID n) t) (tableRows t (dbEntries w'))) ts)"
    using Cons.IH [of w'] by blast
  have "trace (addDriverWatches_loop E n (t # ts) w) = trace w @ (es @ es')"
    by (simp only: r(1) r'(1) r(2) append_assoc)
  moreover have "filter walkEffect (es @ es') =
       concat (map (\<lambda>t. EWatch t (netID n) [] # EWalkTable t #
         map (createNotification (netID n) t) (tableRows t (dbEntries w))) (t # ts))"
    by (simp add: r(4) r'(2) r(3))
  ultimately show ?case
    by blast
qed

lemma tableRows_networkRows:
  assumes "\<forall>r \<in> set es. fst (fst r) = t \<longrightarrow> fst (snd (fst r)) = nid"
  shows "tableRows t es = networkRows t nid es"
  unfolding tableRows_def networkRows_def
  by (rule filter_cong) (use assms in auto)

lemma count_list_filter_keep: "P x \<Longrightarrow> count_list (filter P es) x = count_list es x"
  by (induction es) auto

lemma count_list_distinct: "distinct xs \<Longrightarrow> x \<in> set xs \<Longrightarrow> count_list xs x = 1"
  by (induction xs) auto

lemma createNotification_inj:
  "inj_on (createNotification nid t) (set (networkRows t nid es))"
  by (rule inj_onI) (auto simp: networkRows_def createNotification_def prod_eq_iff)

lemma networkRows_distinct:
  "distinct (map fst es) \<Longrightarrow> distinct (networkRows t nid es)"
  by (simp add: networkRows_def distinct_map_filter distinct_map [THEN iffD1])

text \<open>How often a create notification occurs in the replay of distinct tables.\<close>

lemma replay_count:
  assumes d: "distinct (map fst es)" and r: "r \<in> set (networkRows t0 nid es)"
  shows "distinct ts \<Longrightarrow>
     count_list (concat (map (\<lambda>t. EWatch t nid [] # EWalkTable t #
         map (createNotification nid t) (networkRows t nid es)) ts))
       (createNotification nid t0 r) = (if t0 \<in> set ts then 1 else 0)"
proof (induction ts)
  case Nil
  show ?case by simp
next
  case (Cons t ts)
  have here: "count_list (EWatch t nid [] # EWalkTable t #
         map (createNotification nid t) (networkRows t nid es)) (createNotification nid t0 r) =
      (if t = t0 then 1 else 0)"
  proof (cases "t = t0")
    case True
    have "count_list (map (createNotification nid t0) (networkRows t0 nid es))
        (createNotification nid t0 r) = count_list (networkRows t0 nid es) r"
      using createNotification_inj r by (rule count_list_inj_map)
    also have "\<dots> = 1"
      using networkRows_distinct [OF d] r by (rule count_list_distinct)
    finally show ?thesis
      using True by (simp add: createNotification_def)
  next
    case False
    have "createNotification nid t0 r \<notin>
        set (map (createNotification nid t) (networkRows t nid es))"
      using False by (auto simp: createNotification_def)
    then show ?thesis
      using False by (simp add: createNotification_def)
  qed
  have rest: "count_list (concat (map (\<lambda>t. EWatch t nid [] # EWalkTable t #
         map (createNotification nid t) (networkRows t nid es)) ts))
       (createNotification nid t0 r) = (if t0 \<in> set ts then 1 else 0)"
    using Cons.IH Cons.prems by simp
  have once: "t0 \<notin> set ts" if "t = t0"
    using that Cons.prems by simp
  let ?G = "\<lambda>t. EWatch t nid [] # EWalkTable t #
         map (createNotification nid t) (networkRows t nid es)"
  have "count_list (concat (map ?G (t # ts))) (createNotification nid t0 r) =
      count_list (?G t) (createNotification nid t0 r) +
      count_list (concat (map ?G ts)) (createNotification nid t0 r)"
    by (simp only: list.map concat.simps count_list_append)
  also have "\<dots> = (if t = t0 then 1 else 0) + (if t0 \<in> set ts then 1 else 0)"
    by (simp only: here rest)
  also have "\<dots> = (if t0 \<in> set (t # ts) then 1 else 0)"
    using once by auto
  finally show ?case .
qed

subsection \<open>The concrete inputs, evaluated\<close>

lemma exEnv_extFails [simp]: "extFails exEnv h e = None"
  by (simp add: exEnv_def exEnvWith_def)

lemma exNet_fields [simp]:
  "netID exNet = ''n1''" "networkType exNet = ''overlay''" "ingress exNet = False"
  "driverTables exNet = [''t1'']"
  by (simp_all add: exNet_def)

lemma exState_eligible [simp]: "isClusterEligible exState exNet"
  by (simp add: isClusterEligible_def exState_def exNet_def GlobalScope_def)

lemma exEnvWith_fields [simp]:
  "extFails (exEnvWith f) h e = (if f e then Some ''failed'' else None)"
  "marshal (exEnvWith f) r = [1]"
  "ipString (exEnvWith f) ip = (if ip = [10, 0, 0, 5] then ''10.0.0.5'' else ''<nil>'')"
  by (simp_all add: exEnvWith_def)

lemma exEp_fields [simp]:
  "epID exEp = ''e1''" "epName exEp = ''web''" "\<not> isAnonymous exEp" "svcName exEp = ''svc''"
  "svcID exEp = ''s1''" "virtualIP exEp = [10, 0, 0, 9]" "ingressPorts exEp = []"
  "ifaceAddress exEp = Some \<lparr>ipOf = [10, 0, 0, 5], maskOf = [255, 255, 255, 0]\<rparr>"
  "joinInfo exEp = Some \<lparr>driverTableEntries =
     [\<lparr>tableName = ''t1'', key = ''k2'', entryValue = [1]\<rparr>]\<rparr>"
  by (simp_all add: exEp_def)

lemma exState_dbEntries [simp]: "dbEntries exState = [((''t1'', ''n1'', ''k1''), [7])]"
  by (simp add: exState_def)

text \<open>Publishing the example endpoint when no store operation and no binding fails.\<close>

lemma ex_publish:
  assumes "\<And>e. f e \<Longrightarrow> isRmServiceBinding e"
  shows "fst (addToCluster (exEnvWith f) exState exNet exEp) = None"
    and "dbEntries (snd (addToCluster (exEnvWith f) exState exNet exEp)) =
      [((''t1'', ''n1'', ''k1''), [7]), ((''endpoint_table'', ''n1'', ''e1''), [1]),
       ((''t1'', ''n1'', ''k2''), [1])]"
proof -
  have nf: "\<not> f (EAddServiceBinding a b c d x y z)" "\<not> f (EMarshal r)"
    "\<not> f (ECreateEntry t nid k v)" for a b c d x y z r t nid k v
    using assms [of "EAddServiceBinding a b c d x y z"] assms [of "EMarshal r"]
      assms [of "ECreateEntry t nid k v"]
    by (auto simp: isRmServiceBinding_def)
  show "fst (addToCluster (exEnvWith f) exState exNet exEp) = None"
    by (simp add: addToCluster_def addToCluster_record_def CreateEntry_def callExt_def nf)
  show "dbEntries (snd (addToCluster (exEnvWith f) exState exNet exEp)) =
      [((''t1'', ''n1'', ''k1''), [7]), ((''endpoint_table'', ''n1'', ''e1''), [1]),
       ((''t1'', ''n1'', ''k2''), [1])]"
    by (simp add: addToCluster_def addToCluster_record_def CreateEntry_def callExt_def nf)
qed

lemma ex_published_eligible:
  "isClusterEligible (snd (addToCluster E exState exNet exEp)) exNet"
  using exState_eligible by (simp add: eligible_iff addToCluster_agentOf)

text \<open>
  The walk is not restricted to the network: the visitor ignores the network id that
  \<open>WalkTable\<close> hands it. An entry of network n2 in a table that network n1 watches is
  replayed to the driver as an entry of n1.
\<close>

lemma addDriverWatches_foreign_entry:
  "EEventNotify Create ''n1'' ''t1'' ''k9'' [9] \<in>
     set (trace (addDriverWatches exEnv
       (exState\<lparr>dbEntries := [((''t1'', ''n2'', ''k9''), [9])]\<rparr>) exNet))"
proof -
  let ?w = "exState\<lparr>dbEntries := [((''t1'', ''n2'', ''k9''), [9])]\<rparr>"
  have el: "isClusterEligible ?w exNet"
    using exState_eligible by (simp add: eligible_iff)
  have drv: "\<forall>h. extFails exEnv h (EResolveDriver (networkType exNet)) = None"
    by simp
  obtain es where es: "trace (addDriverWatches_loop exEnv exNet (driverTables exNet) ?w) =
      trace ?w @ es"
    "filter walkEffect es =
       concat (map (\<lambda>t. EWatch t (netID exNet) [] # EWalkTable t #
         map (createNotification (netID exNet) t) (tableRows t (dbEntries ?w)))
         (driverTables exNet))"
    using addDriverWatches_loop_effects [OF drv, of "driverTables exNet" ?w] by blast
  have "EEventNotify Create ''n1'' ''t1'' ''k9'' [9] \<in> set (filter walkEffect es)"
    by (simp add: es(2) tableRows_def createNotification_def)
  then have "EEventNotify Create ''n1'' ''t1'' ''k9'' [9] \<in> set es"
    by simp
  moreover have "addDriverWatches exEnv ?w exNet =
      addDriverWatches_loop exEnv exNet (driverTables exNet) ?w"
    using el unfolding addDriverWatches_def by (simp only: simp_thms if_False)
  ultimately show ?thesis
    by (simp only: es(1) set_append Un_iff simp_thms)
qed

section \<open>The claims\<close>

text \<open>
  C1. \<open>isClusterEligible\<close> is true exactly when the network's driver scope is global and
  the controller has an agent; when it is false, each of \<open>joinCluster\<close>, \<open>leaveCluster\<close>,
  \<open>addToCluster\<close>, \<open>deleteFromCluster\<close>, \<open>addDriverWatches\<close> and \<open>cancelDriverWatches\<close>
  returns nil (or returns) and leaves the whole state as it was: no store call, no other
  call, nothing added to the trace.
\<close>

theorem isClusterEligible_gates:
  "(isClusterEligible w n \<longleftrightarrow> driverScope n = GlobalScope \<and> agentOf w \<noteq> None) \<and>
   (\<not> isClusterEligible w n \<longrightarrow>
      joinCluster E w n = (None, w) \<and> leaveCluster E w n = (None, w) \<and>
      addToCluster E w n ep = (None, w) \<and> deleteFromCluster E w n ep = (None, w) \<and>
      addDriverWatches E w n = w \<and> cancelDriverWatches w n = w)"
  by (simp add: isClusterEligible_def joinCluster_def leaveCluster_def addToCluster_def
      deleteFromCluster_def addDriverWatches_def cancelDriverWatches_def)

theorem isClusterEligible_gates_witness:
  "isClusterEligible exState exNet \<and>
   \<not> isClusterEligible exStateNoAgent exNet \<and>
   joinCluster exEnv exStateNoAgent exNet = (None, exStateNoAgent) \<and>
   leaveCluster exEnv exStateNoAgent exNet = (None, exStateNoAgent) \<and>
   addToCluster exEnv exStateNoAgent exNet exEp = (None, exStateNoAgent) \<and>
   deleteFromCluster exEnv exStateNoAgent exNet exEp = (None, exStateNoAgent) \<and>
   addDriverWatches exEnv exStateNoAgent exNet = exStateNoAgent \<and>
   cancelDriverWatches exStateNoAgent exNet = exStateNoAgent"
proof -
  have a: "agentOf exStateNoAgent = None"
    by (simp add: exStateNoAgent_def)
  show ?thesis
    using isClusterEligible_gates [of exStateNoAgent exNet exEnv exEp] a by simp
qed

text \<open>
  C2, as amended. With nil join information \<open>deleteFromCluster\<close> deletes no driver table
  entry: the only calls it can make are the removal of the service binding and the
  deletion of the endpoint's own entry of the endpoint table. It is a no-op (returns nil,
  state unchanged) when the network is not eligible or the endpoint is anonymous. The
  test of the join information stands after the retraction of the endpoint's record, so
  an eligible, non-anonymous endpoint is still retracted: the counterexample.
\<close>

theorem deleteFromCluster_nil_joinInfo:
  "joinInfo ep = None \<Longrightarrow>
   ((\<not> isClusterEligible w n \<or> isAnonymous ep) \<longrightarrow> deleteFromCluster E w n ep = (None, w)) \<and>
   (\<forall>e \<in> set (newEffects w (snd (deleteFromCluster E w n ep))).
      (\<exists>sn si ni ei vip ps ip. e = ERmServiceBinding sn si ni ei vip ps ip) \<or>
      e = EDeleteEntry ''endpoint_table'' (netID n) (epID ep))"
  by (auto simp: deleteFromCluster_def deleteFromCluster_record_def DeleteEntry_def callExt_def
      newEffects_def andThen_def split: option.splits if_splits prod.splits)

theorem deleteFromCluster_nil_joinInfo_witness:
  "joinInfo (exEpNoJoin\<lparr>isAnonymous := True\<rparr>) = None \<and>
   deleteFromCluster exEnv exState exNet (exEpNoJoin\<lparr>isAnonymous := True\<rparr>) = (None, exState)"
proof -
  have j: "joinInfo (exEpNoJoin\<lparr>isAnonymous := True\<rparr>) = None"
    by (simp add: exEpNoJoin_def)
  show ?thesis
    using deleteFromCluster_nil_joinInfo [OF j, of exState exNet exEnv] j by simp
qed

theorem deleteFromCluster_nil_joinInfo_counterexample:
  "joinInfo exEpNoJoin = None \<and> isClusterEligible exState exNet \<and> \<not> isAnonymous exEpNoJoin \<and>
   trace exState = [] \<and>
   trace (snd (deleteFromCluster exEnv exState exNet exEpNoJoin)) =
     [ERmServiceBinding ''svc'' ''s1'' ''n1'' ''e1'' [10, 0, 0, 9] [] [10, 0, 0, 5],
      EDeleteEntry ''endpoint_table'' ''n1'' ''e1'']"
proof -
  have t: "trace exState = []"
    by (simp add: exState_def)
  show ?thesis
    by (simp add: deleteFromCluster_def deleteFromCluster_record_def DeleteEntry_def
        callExt_def exEpNoJoin_def exEp_def t)
qed

text \<open>
  C3, as amended. For a cluster-eligible network whose driver resolves, and whose
  declared tables hold entries of this network only, the watch registrations, walks and
  notifications of \<open>addDriverWatches\<close> are, for each declared table in order: the watch
  on the table for this network, then the walk of the table, then one create notification
  for each (key, value) pair of the network in the table. When the table names are
  declared once and the store holds one value per key, each pair is notified exactly
  once. When the driver does not resolve there is no walk and no notification: the
  counterexample.
\<close>

theorem addDriverWatches_replay:
  assumes el: "isClusterEligible w n"
    and drv: "\<forall>h. extFails E h (EResolveDriver (networkType n)) = None"
    and own: "\<forall>r \<in> set (dbEntries w).
      fst (fst r) \<in> set (driverTables n) \<longrightarrow> fst (snd (fst r)) = netID n"
  shows
  "filter walkEffect (newEffects w (addDriverWatches E w n)) =
     concat (map (\<lambda>t. EWatch t (netID n) [] # EWalkTable t #
       map (createNotification (netID n) t) (networkRows t (netID n) (dbEntries w)))
       (driverTables n)) \<and>
   (distinct (driverTables n) \<and> distinct (map fst (dbEntries w)) \<longrightarrow>
      (\<forall>t \<in> set (driverTables n). \<forall>r \<in> set (networkRows t (netID n) (dbEntries w)).
         count_list (newEffects w (addDriverWatches E w n))
           (createNotification (netID n) t r) = 1))"
proof -
  let ?new = "newEffects w (addDriverWatches E w n)"
  let ?g = "\<lambda>rows t. EWatch t (netID n) [] # EWalkTable t #
       map (createNotification (netID n) t) (rows t (dbEntries w))"
  obtain es where es: "trace (addDriverWatches_loop E n (driverTables n) w) = trace w @ es"
    "filter walkEffect es = concat (map (?g tableRows) (driverTables n))"
    using addDriverWatches_loop_effects [OF drv, of "driverTables n" w] by blast
  have new: "?new = es"
    using el es(1) by (simp add: addDriverWatches_def)
  have same: "?g tableRows t = ?g (\<lambda>t. networkRows t (netID n)) t"
    if "t \<in> set (driverTables n)" for t
  proof -
    have "\<forall>r \<in> set (dbEntries w). fst (fst r) = t \<longrightarrow> fst (snd (fst r)) = netID n"
      using own that by blast
    then show ?thesis
      by (simp only: tableRows_networkRows)
  qed
  have eq: "filter walkEffect ?new =
      concat (map (?g (\<lambda>t. networkRows t (netID n))) (driverTables n))"
    unfolding new es(2) by (rule arg_cong [where f = concat]) (use same in simp)
  have once: "count_list ?new (createNotification (netID n) t r) = 1"
    if dt: "distinct (driverTables n)" and de: "distinct (map fst (dbEntries w))"
      and t: "t \<in> set (driverTables n)" and r: "r \<in> set (networkRows t (netID n) (dbEntries w))"
    for t r
  proof -
    have "count_list ?new (createNotification (netID n) t r) =
        count_list (filter walkEffect ?new) (createNotification (netID n) t r)"
      by (rule count_list_filter_keep [symmetric])
        (simp add: walkEffect_def createNotification_def)
    also have "\<dots> = (if t \<in> set (driverTables n) then 1 else 0)"
      unfolding eq using de r dt by (rule replay_count)
    finally show ?thesis
      using t by simp
  qed
  show ?thesis
    using eq once by blast
qed

theorem addDriverWatches_replay_witness:
  "isClusterEligible exState exNet \<and>
   filter walkEffect (newEffects exState (addDriverWatches exEnv exState exNet)) =
     [EWatch ''t1'' ''n1'' [], EWalkTable ''t1'', EEventNotify Create ''n1'' ''t1'' ''k1'' [7]]"
proof -
  have drv: "\<forall>h. extFails exEnv h (EResolveDriver (networkType exNet)) = None"
    by simp
  have own: "\<forall>r \<in> set (dbEntries exState).
      fst (fst r) \<in> set (driverTables exNet) \<longrightarrow> fst (snd (fst r)) = netID exNet"
    by simp
  have "filter walkEffect (newEffects exState (addDriverWatches exEnv exState exNet)) =
     concat (map (\<lambda>t. EWatch t (netID exNet) [] # EWalkTable t #
       map (createNotification (netID exNet) t)
         (networkRows t (netID exNet) (dbEntries exState)))
       (driverTables exNet))"
    using addDriverWatches_replay [OF exState_eligible drv own] by (rule conjunct1)
  then have "filter walkEffect (newEffects exState (addDriverWatches exEnv exState exNet)) =
     [EWatch ''t1'' ''n1'' [], EWalkTable ''t1'', EEventNotify Create ''n1'' ''t1'' ''k1'' [7]]"
    by (simp add: networkRows_def createNotification_def)
  with exState_eligible show ?thesis
    by (rule conjI)
qed

theorem addDriverWatches_replay_counterexample:
  "isClusterEligible exState exNet \<and> driverTables exNet = [''t1''] \<and>
   networkRows ''t1'' ''n1'' (dbEntries exState) = [((''t1'', ''n1'', ''k1''), [7])] \<and>
   newEffects exState (addDriverWatches (exEnvWith isResolveDriver) exState exNet) =
     [EWatch ''t1'' ''n1'' [], ELock, ESetCancelFuncs ''n1'' [1, 2, 3], EUnlock,
      ESpawn 3 (DriverTableHandler ''n1''), EResolveDriver ''overlay'',
      ELogError ''Could not resolve driver'']"
proof -
  have a: "agentOf exState = Some exAgent" "dbWatches exState = 3" "trace exState = []"
    by (simp_all add: exState_def)
  have c: "cancelFuncsOf exAgent ''n1'' = [1, 2]"
    by (simp add: cancelFuncsOf_def exAgent_def)
  have "trace (addDriverWatches (exEnvWith isResolveDriver) exState exNet) =
     [EWatch ''t1'' ''n1'' [], ELock, ESetCancelFuncs ''n1'' [1, 2, 3], EUnlock,
      ESpawn 3 (DriverTableHandler ''n1''), EResolveDriver ''overlay'',
      ELogError ''Could not resolve driver'']"
    by (simp add: addDriverWatches_def Watch_def appendCancelFunc_def callExt_def a c
        isResolveDriver_def)
  then have "newEffects exState (addDriverWatches (exEnvWith isResolveDriver) exState exNet) =
     [EWatch ''t1'' ''n1'' [], ELock, ESetCancelFuncs ''n1'' [1, 2, 3], EUnlock,
      ESpawn 3 (DriverTableHandler ''n1''), EResolveDriver ''overlay'',
      ELogError ''Could not resolve driver'']"
    by (simp add: newEffects_def a)
  then show ?thesis
    by (simp add: networkRows_def)
qed

text \<open>
  C4. The handler of the endpoint table does not drop an update event after the log. The
  case of the update event in the type switch logs the unexpected event and has no
  return, so the handler goes on as for the other events with the zero values of its
  variables: for every update event the next call is the lookup of the network with the
  empty id, and when that network is found the empty value is deserialized. What follows
  is logging only: no service binding is called, no name record is changed, and the state
  apart from the trace is as before.
\<close>

theorem handleEpTableEvent_update:
  "\<exists>es. trace (handleEpTableEvent E w (UpdateEvent e)) =
     trace w @ ELogError ''Unexpected update service table event'' # ENetworkByID [] # es \<and>
     list_all harmless es \<and>
     (handleEpTableEvent E w (UpdateEvent e))\<lparr>trace := trace w\<rparr> = w"
proof (cases "networks w []")
  case None
  then show ?thesis
    by (intro exI [of _ "[ELogError ''Could not find network'']"])
      (simp add: handleEpTableEvent_def handleEpTableEvent_body_def epEventFields_def
        harmless_def emit_def)
next
  case (Some n)
  then show ?thesis
    by (intro exI [of _ "[EUnmarshal [], ELogError ''Invalid endpoint name/ip received'']"])
      (simp add: handleEpTableEvent_def handleEpTableEvent_body_def epEventFields_def
        Unmarshal_def zeroRecord_def harmless_def emit_def)
qed

text \<open>
  C5, as amended. For a cluster-eligible endpoint with join information, after
  \<open>addToCluster\<close> (whatever it returned) followed by a \<open>deleteFromCluster\<close> that returns
  nil (the removal of the service binding and every \<open>DeleteEntry\<close> succeeded), the store
  holds no entry under any key of the endpoint's driver table entries, and no entry of
  the endpoint table for the endpoint. For an anonymous endpoint, whose record is neither
  published nor retracted, the latter supposes that there was none before. With the store
  operations succeeding but the removal of the service binding failing,
  \<open>deleteFromCluster\<close> returns before any deletion and all the entries stay: the
  counterexample.
\<close>

theorem publish_retract_roundtrip:
  assumes el: "isClusterEligible w n" and ji: "joinInfo ep = Some ji"
    and add: "addToCluster E w n ep = (r1, w1)"
    and del: "deleteFromCluster E w1 n ep = (None, w2)"
    and fresh: "isAnonymous ep \<longrightarrow>
      map_of (dbEntries w) (''endpoint_table'', netID n, epID ep) = None"
  shows "map_of (dbEntries w2) (''endpoint_table'', netID n, epID ep) = None \<and>
    (\<forall>te \<in> set (driverTableEntries ji).
       map_of (dbEntries w2) (tableName te, netID n, key te) = None)"
proof -
  let ?k = "(''endpoint_table'', netID n, epID ep)"
  have "agentOf w1 = agentOf w"
    using addToCluster_agentOf [of E w n ep] by (simp add: add)
  with el have el1: "isClusterEligible w1 n"
    by (simp add: eligible_iff)
  from del el1 ji obtain wd where
    rec: "(if \<not> isAnonymous ep then deleteFromCluster_record E w1 n ep else (None, w1)) =
      (None, wd)"
    and loop: "deleteFromCluster_entries E (netID n) (driverTableEntries ji) wd = (None, w2)"
    by (auto simp: deleteFromCluster_def elim: andThen_NoneD)
  note fin = deleteFromCluster_entries_done [OF loop]
  have drv: "\<forall>te \<in> set (driverTableEntries ji).
       map_of (dbEntries w2) (tableName te, netID n, key te) = None"
    using fin by blast
  have keep: "map_of (dbEntries w2) ?k = None" if "map_of (dbEntries wd) ?k = None"
    using fin that by blast
  have "map_of (dbEntries w2) ?k = None"
  proof (cases "isAnonymous ep")
    case False
    with rec have "deleteFromCluster_record E w1 n ep = (None, wd)"
      by simp
    from deleteFromCluster_record_done [OF this] have "map_of (dbEntries wd) ?k = None"
      by simp
    then show ?thesis
      by (rule keep)
  next
    case True
    with rec have wd: "wd = w1"
      by simp
    show ?thesis
    proof (cases "?k \<in> (\<lambda>te. (tableName te, netID n, key te)) ` set (driverTableEntries ji)")
      case True
      then obtain te where "te \<in> set (driverTableEntries ji)"
        "?k = (tableName te, netID n, key te)"
        by blast
      with drv show ?thesis
        by simp
    next
      case False
      have "addToCluster E w n ep =
          addToCluster_entries E (netID n) (driverTableEntries ji) w"
        using el ji \<open>isAnonymous ep\<close> by (simp add: addToCluster_def)
      with add have "w1 = snd (addToCluster_entries E (netID n) (driverTableEntries ji) w)"
        by simp
      then have "map_of (dbEntries w1) ?k = map_of (dbEntries w) ?k"
        using addToCluster_entries_other [OF False, of E w] by simp
      with fresh \<open>isAnonymous ep\<close> have "map_of (dbEntries wd) ?k = None"
        by (simp add: wd)
      then show ?thesis
        by (rule keep)
    qed
  qed
  with drv show ?thesis
    by simp
qed

theorem publish_retract_roundtrip_witness:
  "isClusterEligible exState exNet \<and> joinInfo exEp \<noteq> None \<and>
   fst (deleteFromCluster exEnv (snd (addToCluster exEnv exState exNet exEp)) exNet exEp) = None \<and>
   map_of (dbEntries (snd (deleteFromCluster exEnv
       (snd (addToCluster exEnv exState exNet exEp)) exNet exEp)))
     (''endpoint_table'', ''n1'', ''e1'') = None \<and>
   map_of (dbEntries (snd (deleteFromCluster exEnv
       (snd (addToCluster exEnv exState exNet exEp)) exNet exEp)))
     (''t1'', ''n1'', ''k2'') = None"
proof -
  define w1 where "w1 = snd (addToCluster exEnv exState exNet exEp)"
  define w2 where "w2 = snd (deleteFromCluster exEnv w1 exNet exEp)"
  have el1: "isClusterEligible w1 exNet"
    unfolding w1_def by (rule ex_published_eligible)
  have d: "fst (deleteFromCluster exEnv w1 exNet exEp) = None"
    using el1
    by (simp add: deleteFromCluster_def deleteFromCluster_record_def DeleteEntry_def
        callExt_def exEnv_def)
  have add: "addToCluster exEnv exState exNet exEp =
      (fst (addToCluster exEnv exState exNet exEp), w1)"
    by (simp add: w1_def)
  have del: "deleteFromCluster exEnv w1 exNet exEp = (None, w2)"
    using d by (simp add: w2_def prod_eq_iff)
  have ji: "joinInfo exEp = Some \<lparr>driverTableEntries =
     [\<lparr>tableName = ''t1'', key = ''k2'', entryValue = [1]\<rparr>]\<rparr>"
    by simp
  have fresh: "isAnonymous exEp \<longrightarrow>
      map_of (dbEntries exState) (''endpoint_table'', netID exNet, epID exEp) = None"
    by simp
  have "map_of (dbEntries w2) (''endpoint_table'', netID exNet, epID exEp) = None \<and>
    (\<forall>te \<in> set (driverTableEntries \<lparr>driverTableEntries =
         [\<lparr>tableName = ''t1'', key = ''k2'', entryValue = [1]\<rparr>]\<rparr>).
       map_of (dbEntries w2) (tableName te, netID exNet, key te) = None)"
    using exState_eligible ji add del fresh by (rule publish_retract_roundtrip)
  then have "map_of (dbEntries w2) (''endpoint_table'', ''n1'', ''e1'') = None \<and>
      map_of (dbEntries w2) (''t1'', ''n1'', ''k2'') = None"
    by simp
  with d show ?thesis
    by (simp add: w1_def w2_def)
qed

theorem publish_retract_roundtrip_counterexample:
  "isClusterEligible exState exNet \<and> joinInfo exEp \<noteq> None \<and>
   (\<forall>h t nid k v. extFails (exEnvWith isRmServiceBinding) h (ECreateEntry t nid k v) = None) \<and>
   (\<forall>h t nid k. extFails (exEnvWith isRmServiceBinding) h (EDeleteEntry t nid k) = None) \<and>
   fst (addToCluster (exEnvWith isRmServiceBinding) exState exNet exEp) = None \<and>
   fst (deleteFromCluster (exEnvWith isRmServiceBinding)
     (snd (addToCluster (exEnvWith isRmServiceBinding) exState exNet exEp)) exNet exEp) =
     Some (ExtError ''failed'') \<and>
   map_of (dbEntries (snd (deleteFromCluster (exEnvWith isRmServiceBinding)
       (snd (addToCluster (exEnvWith isRmServiceBinding) exState exNet exEp)) exNet exEp)))
     (''endpoint_table'', ''n1'', ''e1'') = Some [1] \<and>
   map_of (dbEntries (snd (deleteFromCluster (exEnvWith isRmServiceBinding)
       (snd (addToCluster (exEnvWith isRmServiceBinding) exState exNet exEp)) exNet exEp)))
     (''t1'', ''n1'', ''k2'') = Some [1]"
proof -
  define w1 where "w1 = snd (addToCluster (exEnvWith isRmServiceBinding) exState exNet exEp)"
  have el1: "isClusterEligible w1 exNet"
    unfolding w1_def by (rule ex_published_eligible)
  have a: "fst (addToCluster (exEnvWith isRmServiceBinding) exState exNet exEp) = None"
    by (rule ex_publish(1)) simp
  have e1: "dbEntries w1 =
      [((''t1'', ''n1'', ''k1''), [7]), ((''endpoint_table'', ''n1'', ''e1''), [1]),
       ((''t1'', ''n1'', ''k2''), [1])]"
    unfolding w1_def by (rule ex_publish(2)) simp
  have d: "deleteFromCluster (exEnvWith isRmServiceBinding) w1 exNet exEp =
      (Some (ExtError ''failed''),
       emit (ERmServiceBinding ''svc'' ''s1'' ''n1'' ''e1'' [10, 0, 0, 9] [] [10, 0, 0, 5]) w1)"
    using el1
    by (simp add: deleteFromCluster_def deleteFromCluster_record_def callExt_def
        isRmServiceBinding_def)
  have s: "\<forall>h t nid k v. extFails (exEnvWith isRmServiceBinding) h (ECreateEntry t nid k v) = None"
    "\<forall>h t nid k. extFails (exEnvWith isRmServiceBinding) h (EDeleteEntry t nid k) = None"
    by (simp_all add: isRmServiceBinding_def)
  have m: "map_of (dbEntries (snd (deleteFromCluster (exEnvWith isRmServiceBinding) w1 exNet exEp)))
       (''endpoint_table'', ''n1'', ''e1'') = Some [1]"
    "map_of (dbEntries (snd (deleteFromCluster (exEnvWith isRmServiceBinding) w1 exNet exEp)))
       (''t1'', ''n1'', ''k2'') = Some [1]"
    by (simp_all add: d e1)
  have f: "fst (deleteFromCluster (exEnvWith isRmServiceBinding) w1 exNet exEp) =
      Some (ExtError ''failed'')"
    by (simp add: d)
  have j: "joinInfo exEp \<noteq> None"
    by simp
  show ?thesis
    using exState_eligible j s a f m unfolding w1_def by (intro conjI)
qed

text \<open>
  C6. For a cluster-eligible, non-anonymous endpoint with an address and a service id, the
  first call of \<open>addToCluster\<close> is \<open>addServiceBinding\<close>, so it precedes every
  \<open>CreateEntry\<close>. When the binding fails, \<open>addToCluster\<close> returns that error after this
  one call: the store is untouched and nothing is created. Every list of ingress ports
  handed to the binding or serialized into the record is the endpoint's list when the
  network is the ingress network and empty otherwise.
\<close>

theorem addToCluster_binding_first:
  assumes el: "isClusterEligible w n" and na: "\<not> isAnonymous ep"
    and ad: "ifaceAddress ep = Some a" and sv: "svcID ep \<noteq> []"
  shows
  "\<exists>rest.
     trace (snd (addToCluster E w n ep)) =
       trace w @ EAddServiceBinding (svcName ep) (svcID ep) (netID n) (epID ep) (virtualIP ep)
         (if ingress n then ingressPorts ep else []) (ipOf a) # rest \<and>
     (\<forall>sn si ni ei vip ps ip. EAddServiceBinding sn si ni ei vip ps ip \<notin> set rest) \<and>
     (\<forall>r. EMarshal r \<in> set rest \<longrightarrow>
        IngressPorts r = (if ingress n then ingressPorts ep else [])) \<and>
     ((if ingress n then ingressPorts ep else []) \<noteq> [] \<longrightarrow> ingress n) \<and>
     (\<forall>m. extFails E (trace w) (EAddServiceBinding (svcName ep) (svcID ep) (netID n) (epID ep)
            (virtualIP ep) (if ingress n then ingressPorts ep else []) (ipOf a)) = Some m \<longrightarrow>
        rest = [] \<and> fst (addToCluster E w n ep) = Some (ExtError m) \<and>
        dbEntries (snd (addToCluster E w n ep)) = dbEntries w)"
proof -
  define ports where "ports = (if ingress n then ingressPorts ep else [])"
  define sb where "sb = EAddServiceBinding (svcName ep) (svcID ep) (netID n) (epID ep)
      (virtualIP ep) ports (ipOf a)"
  define rc where "rc = \<lparr>Name = epName ep, ServiceName = svcName ep, ServiceID = svcID ep,
      VirtualIP = ipString E (virtualIP ep), IngressPorts = ports,
      EndpointIP = ipString E (ipOf a)\<rparr>"
  define ce where "ce = ECreateEntry ''endpoint_table'' (netID n) (epID ep) (marshal E rc)"
  define loop where "loop = (\<lambda>w1. case joinInfo ep of
                None \<Rightarrow> (Some NilPointerDereference, w1)
              | Some ji \<Rightarrow> addToCluster_entries E (netID n) (driverTableEntries ji) w1)"
  define good where "good = (\<lambda>rest.
     (\<forall>sn si ni ei vip ps ip. EAddServiceBinding sn si ni ei vip ps ip \<notin> set rest) \<and>
     (\<forall>r. EMarshal r \<in> set rest \<longrightarrow> IngressPorts r = ports))"
  have add: "addToCluster E w n ep = andThen (addToCluster_record E w n ep a) loop"
    using el na ad by (simp add: addToCluster_def loop_def)
  have rec: "addToCluster_record E w n ep a =
      andThen (callExt E sb w)
        (\<lambda>w1. andThen (callExt E (EMarshal rc) w1)
           (CreateEntry E ''endpoint_table'' (netID n) (epID ep) (marshal E rc)))"
    using sv by (simp add: addToCluster_record_def Let_def sb_def rc_def ports_def)
  have good_Nil: "good []"
    by (simp add: good_def)
  have good_m: "good [EMarshal rc]"
    by (simp add: good_def rc_def)
  have good_c: "good [EMarshal rc, ce]"
    by (simp add: good_def rc_def ce_def)
  have loop_tr: "\<exists>es. trace (snd (loop w1)) = trace w1 @ es \<and>
      (\<forall>e \<in> set es. \<exists>t k v. e = ECreateEntry t (netID n) k v)" for w1
  proof (cases "joinInfo ep")
    case None
    then show ?thesis by (simp add: loop_def)
  next
    case (Some ji)
    then show ?thesis
      using addToCluster_entries_trace [of E "netID n" "driverTableEntries ji" w1]
      by (simp add: loop_def)
  qed
  have loop_good: "\<exists>es. trace (snd (loop w1)) = trace w1 @ es \<and> good (EMarshal rc # ce # es)"
    for w1
  proof -
    obtain es where es: "trace (snd (loop w1)) = trace w1 @ es"
      "\<forall>e \<in> set es. \<exists>t k v. e = ECreateEntry t (netID n) k v"
      using loop_tr [of w1] by blast
    have nb: "EAddServiceBinding sn si ni ei vip ps ip \<notin> set es" for sn si ni ei vip ps ip
    proof
      assume "EAddServiceBinding sn si ni ei vip ps ip \<in> set es"
      with es(2) obtain t k v
        where "EAddServiceBinding sn si ni ei vip ps ip = ECreateEntry t (netID n) k v"
        by blast
      then show False by simp
    qed
    have nm: "EMarshal r \<notin> set es" for r
    proof
      assume "EMarshal r \<in> set es"
      with es(2) obtain t k v where "EMarshal r = ECreateEntry t (netID n) k v"
        by blast
      then show False by simp
    qed
    have "good (EMarshal rc # ce # es)"
      by (simp add: good_def nb nm rc_def ce_def)
    with es(1) show ?thesis by blast
  qed
  have main: "\<exists>rest.
     trace (snd (addToCluster E w n ep)) = trace w @ sb # rest \<and> good rest \<and>
     (ports \<noteq> [] \<longrightarrow> ingress n) \<and>
     (\<forall>m. extFails E (trace w) sb = Some m \<longrightarrow>
        rest = [] \<and> fst (addToCluster E w n ep) = Some (ExtError m) \<and>
        dbEntries (snd (addToCluster E w n ep)) = dbEntries w)"
  proof (cases "extFails E (trace w) sb")
    case (Some m)
    have r: "addToCluster E w n ep = (Some (ExtError m), emit sb w)"
      by (simp add: add rec callExt_def Some)
    show ?thesis
      using good_Nil by (intro exI [of _ "[]"]) (simp add: r Some ports_def)
  next
    case None
    note sbNone = None
    have r1: "addToCluster E w n ep =
        andThen (andThen (callExt E (EMarshal rc) (emit sb w))
           (CreateEntry E ''endpoint_table'' (netID n) (epID ep) (marshal E rc))) loop"
      by (simp add: add rec callExt_def sbNone)
    show ?thesis
    proof (cases "extFails E (trace (emit sb w)) (EMarshal rc)")
      case (Some m)
      have r: "addToCluster E w n ep = (Some (ExtError m), emit (EMarshal rc) (emit sb w))"
        using Some by (simp add: r1 callExt_def)
      show ?thesis
        using good_m by (intro exI [of _ "[EMarshal rc]"]) (simp add: r sbNone ports_def)
    next
      case None
      note mNone = None
      have r2: "addToCluster E w n ep =
          andThen (CreateEntry E ''endpoint_table'' (netID n) (epID ep) (marshal E rc)
            (emit (EMarshal rc) (emit sb w))) loop"
        using mNone by (simp add: r1 callExt_def)
      show ?thesis
      proof (cases "extFails E (trace (emit (EMarshal rc) (emit sb w))) ce")
        case (Some m)
        have r: "addToCluster E w n ep =
            (Some (ExtError m), emit ce (emit (EMarshal rc) (emit sb w)))"
          using CreateEntry_Some [OF Some [unfolded ce_def]] by (simp add: r2 ce_def)
        show ?thesis
          using good_c by (intro exI [of _ "[EMarshal rc, ce]"]) (simp add: r sbNone ports_def)
      next
        case None
        define w3 where "w3 = (emit ce (emit (EMarshal rc) (emit sb w)))\<lparr>dbEntries :=
            AList.update (''endpoint_table'', netID n, epID ep) (marshal E rc)
              (dbEntries (emit (EMarshal rc) (emit sb w)))\<rparr>"
        have r: "addToCluster E w n ep = loop w3"
          using CreateEntry_None [OF None [unfolded ce_def]] by (simp add: r2 ce_def w3_def)
        have t3: "trace w3 = trace w @ [sb, EMarshal rc, ce]"
          by (simp add: w3_def)
        obtain es where es: "trace (snd (loop w3)) = trace w3 @ es" "good (EMarshal rc # ce # es)"
          using loop_good [of w3] by blast
        have t: "trace (snd (addToCluster E w n ep)) = trace w @ sb # EMarshal rc # ce # es"
          using es(1) by (simp add: r t3)
        show ?thesis
          using es(2) by (intro exI [of _ "EMarshal rc # ce # es"]) (simp add: t sbNone ports_def)
      qed
    qed
  qed
  show ?thesis
    using main unfolding good_def sb_def ports_def by (simp only: conj_assoc)
qed

theorem addToCluster_binding_first_witness:
  "isClusterEligible exState exNet \<and> \<not> isAnonymous exEp \<and>
   ifaceAddress exEp = Some \<lparr>ipOf = [10, 0, 0, 5], maskOf = [255, 255, 255, 0]\<rparr> \<and>
   svcID exEp \<noteq> [] \<and>
   (\<exists>rest. trace (snd (addToCluster exEnv exState exNet exEp)) =
      EAddServiceBinding ''svc'' ''s1'' ''n1'' ''e1'' [10, 0, 0, 9] [] [10, 0, 0, 5] # rest)"
proof -
  have na: "\<not> isAnonymous exEp"
    and ad: "ifaceAddress exEp = Some \<lparr>ipOf = [10, 0, 0, 5], maskOf = [255, 255, 255, 0]\<rparr>"
    and sv: "svcID exEp \<noteq> []"
    by (simp_all add: exEp_def)
  have t: "trace exState = []"
    by (simp add: exState_def)
  obtain rest where "trace (snd (addToCluster exEnv exState exNet exEp)) =
       trace exState @ EAddServiceBinding (svcName exEp) (svcID exEp) (netID exNet) (epID exEp)
         (virtualIP exEp) (if ingress exNet then ingressPorts exEp else [])
         (ipOf \<lparr>ipOf = [10, 0, 0, 5], maskOf = [255, 255, 255, 0]\<rparr>) # rest"
    using addToCluster_binding_first [OF exState_eligible na ad sv, of exEnv]
    by (elim exE conjE)
  then have "trace (snd (addToCluster exEnv exState exNet exEp)) =
      EAddServiceBinding ''svc'' ''s1'' ''n1'' ''e1'' [10, 0, 0, 9] [] [10, 0, 0, 5] # rest"
    by (simp add: t exEp_def)
  then have "\<exists>rest. trace (snd (addToCluster exEnv exState exNet exEp)) =
      EAddServiceBinding ''svc'' ''s1'' ''n1'' ''e1'' [10, 0, 0, 9] [] [10, 0, 0, 5] # rest"
    by (rule exI)
  with exState_eligible na ad sv show ?thesis
    by (intro conjI)
qed

text \<open>
  C7. For an event of the endpoint table whose value does not deserialize, or
  deserializes with an empty name or an endpoint address that does not parse, the handler
  only logs, looks the network up and deserializes: no service binding is added or
  removed, no name record is added or deleted, and the state apart from the trace is as
  before. The dispatch loop goes on with the events that follow on the channel, and a
  well-formed event that comes later on the channel, after any events in between, is
  processed in full, whether it is a create or a delete event and with or without a
  service id: the network is looked up, the value deserialized, the service binding
  added (removed) when there is a service id, and the name record added (deleted), or the
  failure of the binding logged.
\<close>

theorem handleEpTableEvent_malformed:
  assumes bad: "malformed E (eventValue ev)"
  shows
  "(\<forall>e \<in> set (newEffects w (handleEpTableEvent E w ev)). harmless e) \<and>
   (handleEpTableEvent E w ev)\<lparr>trace := trace w\<rparr> = w \<and>
   handleTableEvents (handleEpTableEvent E) w (ev # ch) =
     handleTableEvents (handleEpTableEvent E) (handleEpTableEvent E w ev) ch \<and>
   (\<forall>ch1 e2 n2 r2.
      networks w (NetworkID e2) = Some n2 \<and> Unmarshal E (evValue e2) = Some r2 \<and>
      Name r2 \<noteq> [] \<and> parseIP E (EndpointIP r2) \<noteq> [] \<longrightarrow>
      trace (handleTableEvents (handleEpTableEvent E) w (ev # ch1 @ [CreateEvent e2])) =
        trace (handleTableEvents (handleEpTableEvent E) w (ev # ch1)) @
        ENetworkByID (NetworkID e2) # EUnmarshal (evValue e2) #
          (if ServiceID r2 = []
           then [EAddSvcRecords (netID n2) (Name r2) (parseIP E (EndpointIP r2))]
           else EAddServiceBinding (ServiceName r2) (ServiceID r2) (NetworkID e2) (Key e2)
                  (parseIP E (VirtualIP r2)) (IngressPorts r2) (parseIP E (EndpointIP r2)) #
                (case extFails E
                        (trace (handleTableEvents (handleEpTableEvent E) w (ev # ch1)) @
                           [ENetworkByID (NetworkID e2), EUnmarshal (evValue e2)])
                        (EAddServiceBinding (ServiceName r2) (ServiceID r2) (NetworkID e2)
                           (Key e2) (parseIP E (VirtualIP r2)) (IngressPorts r2)
                           (parseIP E (EndpointIP r2))) of
                   None \<Rightarrow> [EAddSvcRecords (netID n2) (Name r2) (parseIP E (EndpointIP r2))]
                 | Some m \<Rightarrow> [ELogError ''Failed adding service binding''])) \<and>
      trace (handleTableEvents (handleEpTableEvent E) w (ev # ch1 @ [DeleteEvent e2])) =
        trace (handleTableEvents (handleEpTableEvent E) w (ev # ch1)) @
        ENetworkByID (NetworkID e2) # EUnmarshal (evValue e2) #
          (if ServiceID r2 = []
           then [EDeleteSvcRecords (netID n2) (Name r2) (parseIP E (EndpointIP r2))]
           else ERmServiceBinding (ServiceName r2) (ServiceID r2) (NetworkID e2) (Key e2)
                  (parseIP E (VirtualIP r2)) (IngressPorts r2) (parseIP E (EndpointIP r2)) #
                (case extFails E
                        (trace (handleTableEvents (handleEpTableEvent E) w (ev # ch1)) @
                           [ENetworkByID (NetworkID e2), EUnmarshal (evValue e2)])
                        (ERmServiceBinding (ServiceName r2) (ServiceID r2) (NetworkID e2)
                           (Key e2) (parseIP E (VirtualIP r2)) (IngressPorts r2)
                           (parseIP E (EndpointIP r2))) of
                   None \<Rightarrow> [EDeleteSvcRecords (netID n2) (Name r2) (parseIP E (EndpointIP r2))]
                 | Some m \<Rightarrow> [ELogError ''Failed adding service binding''])))"
proof -
  obtain es where es: "handleEpTableEvent E w ev = w\<lparr>trace := trace w @ es\<rparr>"
    "\<forall>e \<in> set es. harmless e"
    using handleEpTableEvent_malformed_run [OF bad] by blast
  have c1: "\<forall>e \<in> set (newEffects w (handleEpTableEvent E w ev)). harmless e"
    using es by (simp add: newEffects_def)
  have c2: "(handleEpTableEvent E w ev)\<lparr>trace := trace w\<rparr> = w"
    by (simp add: es(1))
  have c3: "handleTableEvents (handleEpTableEvent E) w (ev # ch) =
     handleTableEvents (handleEpTableEvent E) (handleEpTableEvent E w ev) ch"
    by simp
  have later: "handleTableEvents (handleEpTableEvent E) w (ev # ch1 @ [x]) =
      handleEpTableEvent E (handleTableEvents (handleEpTableEvent E) w (ev # ch1)) x" for ch1 x
    using handleTableEvents_snoc [of "handleEpTableEvent E" w "ev # ch1" x]
    by (simp only: append_Cons)
  have c4: "trace (handleTableEvents (handleEpTableEvent E) w (ev # ch1 @ [CreateEvent e2])) =
        trace (handleTableEvents (handleEpTableEvent E) w (ev # ch1)) @
        ENetworkByID (NetworkID e2) # EUnmarshal (evValue e2) #
          (if ServiceID r2 = []
           then [EAddSvcRecords (netID n2) (Name r2) (parseIP E (EndpointIP r2))]
           else EAddServiceBinding (ServiceName r2) (ServiceID r2) (NetworkID e2) (Key e2)
                  (parseIP E (VirtualIP r2)) (IngressPorts r2) (parseIP E (EndpointIP r2)) #
                (case extFails E
                        (trace (handleTableEvents (handleEpTableEvent E) w (ev # ch1)) @
                           [ENetworkByID (NetworkID e2), EUnmarshal (evValue e2)])
                        (EAddServiceBinding (ServiceName r2) (ServiceID r2) (NetworkID e2)
                           (Key e2) (parseIP E (VirtualIP r2)) (IngressPorts r2)
                           (parseIP E (EndpointIP r2))) of
                   None \<Rightarrow> [EAddSvcRecords (netID n2) (Name r2) (parseIP E (EndpointIP r2))]
                 | Some m \<Rightarrow> [ELogError ''Failed adding service binding''])) \<and>
      trace (handleTableEvents (handleEpTableEvent E) w (ev # ch1 @ [DeleteEvent e2])) =
        trace (handleTableEvents (handleEpTableEvent E) w (ev # ch1)) @
        ENetworkByID (NetworkID e2) # EUnmarshal (evValue e2) #
          (if ServiceID r2 = []
           then [EDeleteSvcRecords (netID n2) (Name r2) (parseIP E (EndpointIP r2))]
           else ERmServiceBinding (ServiceName r2) (ServiceID r2) (NetworkID e2) (Key e2)
                  (parseIP E (VirtualIP r2)) (IngressPorts r2) (parseIP E (EndpointIP r2)) #
                (case extFails E
                        (trace (handleTableEvents (handleEpTableEvent E) w (ev # ch1)) @
                           [ENetworkByID (NetworkID e2), EUnmarshal (evValue e2)])
                        (ERmServiceBinding (ServiceName r2) (ServiceID r2) (NetworkID e2)
                           (Key e2) (parseIP E (VirtualIP r2)) (IngressPorts r2)
                           (parseIP E (EndpointIP r2))) of
                   None \<Rightarrow> [EDeleteSvcRecords (netID n2) (Name r2) (parseIP E (EndpointIP r2))]
                 | Some m \<Rightarrow> [ELogError ''Failed adding service binding'']))"
    if g: "networks w (NetworkID e2) = Some n2 \<and> Unmarshal E (evValue e2) = Some r2 \<and>
      Name r2 \<noteq> [] \<and> parseIP E (EndpointIP r2) \<noteq> []" for ch1 e2 n2 r2
  proof -
    let ?W = "handleTableEvents (handleEpTableEvent E) w (ev # ch1)"
    have n: "networks ?W (NetworkID e2) = Some n2"
      using g by (simp only: handleTableEvents_networks)
    have u: "Unmarshal E (evValue e2) = Some r2" and nm: "Name r2 \<noteq> []"
      and ip: "parseIP E (EndpointIP r2) \<noteq> []"
      using g by blast+
    show ?thesis
      unfolding later
      using handleEpTableEvent_create_good [OF n u nm ip]
        handleEpTableEvent_delete_good [OF n u nm ip]
      by (rule conjI)
  qed
  show ?thesis
    using c1 c2 c3 c4 by blast
qed

theorem handleEpTableEvent_malformed_witness:
  "malformed exEnv (eventValue exBadEvent) \<and>
   trace (handleTableEvents (handleEpTableEvent exEnv) exState
      [exBadEvent, DeleteEvent exGoodEvent]) =
     [ENetworkByID ''n1'', EUnmarshal [2], ELogError ''Failed to unmarshal service table value'',
      ENetworkByID ''n1'', EUnmarshal exGoodBytes,
      ERmServiceBinding ''svc'' ''s1'' ''n1'' ''e9'' [] [] [10, 0, 0, 5],
      EDeleteSvcRecords ''n1'' ''web'' [10, 0, 0, 5]]"
proof -
  have nb: "exGoodBytes \<noteq> [2]" "exGoodBytes \<noteq> []"
    by (simp_all add: exGoodBytes_def)
  have dec: "Unmarshal exEnv [2] = None" "Unmarshal exEnv exGoodBytes = Some exGoodRecord"
    using nb by (auto simp: Unmarshal_def exEnv_def exEnvWith_def)
  have bad: "malformed exEnv (eventValue exBadEvent)"
    by (simp add: malformed_def eventValue_def exBadEvent_def dec)
  have pip: "parseIP exEnv ''10.0.0.5'' = [10, 0, 0, 5]" "parseIP exEnv [] = []"
    by (simp_all add: exEnv_def exEnvWith_def)
  have good: "networks exState (NetworkID exGoodEvent) = Some exNet \<and>
      Unmarshal exEnv (evValue exGoodEvent) = Some exGoodRecord \<and>
      Name exGoodRecord \<noteq> [] \<and> parseIP exEnv (EndpointIP exGoodRecord) \<noteq> []"
    by (simp add: exState_def exGoodEvent_def dec exGoodRecord_def pip)
  have first: "trace (handleEpTableEvent exEnv exState exBadEvent) =
      [ENetworkByID ''n1'', EUnmarshal [2],
       ELogError ''Failed to unmarshal service table value'']"
    by (simp add: handleEpTableEvent_def handleEpTableEvent_body_def epEventFields_def
        exBadEvent_def dec exState_def)
  have "\<forall>ch1 e2 n2 r2.
      networks exState (NetworkID e2) = Some n2 \<and> Unmarshal exEnv (evValue e2) = Some r2 \<and>
      Name r2 \<noteq> [] \<and> parseIP exEnv (EndpointIP r2) \<noteq> [] \<longrightarrow>
      trace (handleTableEvents (handleEpTableEvent exEnv) exState
          (exBadEvent # ch1 @ [CreateEvent e2])) =
        trace (handleTableEvents (handleEpTableEvent exEnv) exState (exBadEvent # ch1)) @
        ENetworkByID (NetworkID e2) # EUnmarshal (evValue e2) #
          (if ServiceID r2 = []
           then [EAddSvcRecords (netID n2) (Name r2) (parseIP exEnv (EndpointIP r2))]
           else EAddServiceBinding (ServiceName r2) (ServiceID r2) (NetworkID e2) (Key e2)
                  (parseIP exEnv (VirtualIP r2)) (IngressPorts r2)
                  (parseIP exEnv (EndpointIP r2)) #
                (case extFails exEnv
                        (trace (handleTableEvents (handleEpTableEvent exEnv) exState
                            (exBadEvent # ch1)) @
                           [ENetworkByID (NetworkID e2), EUnmarshal (evValue e2)])
                        (EAddServiceBinding (ServiceName r2) (ServiceID r2) (NetworkID e2)
                           (Key e2) (parseIP exEnv (VirtualIP r2)) (IngressPorts r2)
                           (parseIP exEnv (EndpointIP r2))) of
                   None \<Rightarrow>
                     [EAddSvcRecords (netID n2) (Name r2) (parseIP exEnv (EndpointIP r2))]
                 | Some m \<Rightarrow> [ELogError ''Failed adding service binding''])) \<and>
      trace (handleTableEvents (handleEpTableEvent exEnv) exState
          (exBadEvent # ch1 @ [DeleteEvent e2])) =
        trace (handleTableEvents (handleEpTableEvent exEnv) exState (exBadEvent # ch1)) @
        ENetworkByID (NetworkID e2) # EUnmarshal (evValue e2) #
          (if ServiceID r2 = []
           then [EDeleteSvcRecords (netID n2) (Name r2) (parseIP exEnv (EndpointIP r2))]
           else ERmServiceBinding (ServiceName r2) (ServiceID r2) (NetworkID e2) (Key e2)
                  (parseIP exEnv (VirtualIP r2)) (IngressPorts r2)
                  (parseIP exEnv (EndpointIP r2)) #
                (case extFails exEnv
                        (trace (handleTableEvents (handleEpTableEvent exEnv) exState
                            (exBadEvent # ch1)) @
                           [ENetworkByID (NetworkID e2), EUnmarshal (evValue e2)])
                        (ERmServiceBinding (ServiceName r2) (ServiceID r2) (NetworkID e2)
                           (Key e2) (parseIP exEnv (VirtualIP r2)) (IngressPorts r2)
                           (parseIP exEnv (EndpointIP r2))) of
                   None \<Rightarrow>
                     [EDeleteSvcRecords (netID n2) (Name r2) (parseIP exEnv (EndpointIP r2))]
                 | Some m \<Rightarrow> [ELogError ''Failed adding service binding'']))"
    using handleEpTableEvent_malformed [OF bad, of exState "[]"]
    by (rule conjunct2 [OF conjunct2 [OF conjunct2]])
  from this [THEN spec, of "[]", THEN spec, of exGoodEvent, THEN spec, of exNet,
      THEN spec, of exGoodRecord, THEN mp, OF good, THEN conjunct2]
  have "trace (handleTableEvents (handleEpTableEvent exEnv) exState
      [exBadEvent, DeleteEvent exGoodEvent]) =
     [ENetworkByID ''n1'', EUnmarshal [2], ELogError ''Failed to unmarshal service table value'',
      ENetworkByID ''n1'', EUnmarshal exGoodBytes,
      ERmServiceBinding ''svc'' ''s1'' ''n1'' ''e9'' [] [] [10, 0, 0, 5],
      EDeleteSvcRecords ''n1'' ''web'' [10, 0, 0, 5]]"
    by (simp add: first exGoodEvent_def exGoodRecord_def pip)
  with bad show ?thesis
    by (rule conjI)
qed

text \<open>
  C8. For a cluster-eligible network \<open>cancelDriverWatches\<close> takes the lock, removes the
  network's entry from the map of cancel functions, releases the lock, and then invokes
  the removed handles in order, each as often as it was recorded (once, for the distinct
  handles that \<open>Watch\<close> hands out). Afterwards no handle is recorded for the network. With
  no recorded handle it returns after the unlock.
\<close>

theorem cancelDriverWatches_cancels:
  assumes el: "isClusterEligible w n" and ag: "agentOf w = Some a"
  shows
  "trace (cancelDriverWatches w n) =
     trace w @ [ELock, EDeleteCancelFuncs (netID n), EUnlock] @
       map ECancel (cancelFuncsOf a (netID n)) \<and>
   (\<forall>h. count_list (newEffects w (cancelDriverWatches w n)) (ECancel h) =
      count_list (cancelFuncsOf a (netID n)) h) \<and>
   (\<exists>a'. agentOf (cancelDriverWatches w n) = Some a' \<and>
      driverCancelFuncs a' = (driverCancelFuncs a)(netID n := None) \<and>
      length (cancelFuncsOf a' (netID n)) = 0) \<and>
   (driverCancelFuncs a (netID n) = None \<longrightarrow>
      trace (cancelDriverWatches w n) =
        trace w @ [ELock, EDeleteCancelFuncs (netID n), EUnlock])"
proof -
  let ?hs = "cancelFuncsOf a (netID n)"
  have tr: "trace (cancelDriverWatches w n) =
     trace w @ [ELock, EDeleteCancelFuncs (netID n), EUnlock] @ map ECancel ?hs"
    using el ag by (simp add: cancelDriverWatches_def Let_def cancelAll_trace)
  have cnt: "count_list (newEffects w (cancelDriverWatches w n)) (ECancel h) = count_list ?hs h"
    for h
    by (simp add: newEffects_append [OF tr] count_list_ECancel)
  have agt: "agentOf (cancelDriverWatches w n) =
      Some (a\<lparr>driverCancelFuncs := (driverCancelFuncs a)(netID n := None)\<rparr>)"
    using el ag by (simp add: cancelDriverWatches_def Let_def cancelAll_agentOf)
  have none: "trace (cancelDriverWatches w n) =
        trace w @ [ELock, EDeleteCancelFuncs (netID n), EUnlock]"
    if "driverCancelFuncs a (netID n) = None"
    using tr that by (simp add: cancelFuncsOf_def)
  show ?thesis
    using tr cnt agt none by (simp add: cancelFuncsOf_def)
qed

theorem cancelDriverWatches_cancels_witness:
  "isClusterEligible exState exNet \<and> agentOf exState = Some exAgent \<and>
   trace (cancelDriverWatches exState exNet) =
     [ELock, EDeleteCancelFuncs ''n1'', EUnlock, ECancel 1, ECancel 2]"
proof -
  have ag: "agentOf exState = Some exAgent" and t: "trace exState = []"
    by (simp_all add: exState_def)
  have hs: "cancelFuncsOf exAgent ''n1'' = [1, 2]"
    by (simp add: cancelFuncsOf_def exAgent_def)
  have "trace (cancelDriverWatches exState exNet) =
     trace exState @ [ELock, EDeleteCancelFuncs (netID exNet), EUnlock] @
       map ECancel (cancelFuncsOf exAgent (netID exNet))"
    using cancelDriverWatches_cancels [OF exState_eligible ag] by (rule conjunct1)
  then have "trace (cancelDriverWatches exState exNet) =
     [ELock, EDeleteCancelFuncs ''n1'', EUnlock, ECancel 1, ECancel 2]"
    by (simp add: t hs)
  with ag show ?thesis
    by simp
qed

text \<open>
  C9. For a controller configured for clustering: a failure of the address resolution is
  returned with the state untouched; a failure of the store's start-up is returned after
  that one call; these are the only failures; and a failing \<open>agentInit\<close> leaves the
  agent field as it was (unset, if it was unset), registers no watch and starts no
  dispatch loop.
\<close>

theorem agentInit_failure:
  assumes cfg: "isAgentCfg w"
  shows
  "(\<forall>e. resolveAddr E b = Inl e \<longrightarrow> agentInit E w b = (Some e, w)) \<and>
   (\<forall>a m. resolveAddr E b = Inr a \<and> extFails E (trace w) (ENewDB a (hostname E)) = Some m \<longrightarrow>
      agentInit E w b = (Some (ExtError m), emit (ENewDB a (hostname E)) w)) \<and>
   (\<forall>err w'. agentInit E w b = (Some err, w') \<longrightarrow>
      (resolveAddr E b = Inl err \<or>
       (\<exists>a m. resolveAddr E b = Inr a \<and>
          extFails E (trace w) (ENewDB a (hostname E)) = Some m \<and> err = ExtError m)) \<and>
      agentOf w' = agentOf w \<and>
      (\<forall>t nid k. EWatch t nid k \<notin> set (newEffects w w')) \<and>
      (\<forall>c h. ESpawn c h \<notin> set (newEffects w w')))"
proof -
  have l1: "agentInit E w b = (Some e, w)" if "resolveAddr E b = Inl e" for e
    using cfg that by (simp add: agentInit_def)
  have l2: "agentInit E w b = (Some (ExtError m), emit (ENewDB a (hostname E)) w)"
    if "resolveAddr E b = Inr a" "extFails E (trace w) (ENewDB a (hostname E)) = Some m" for a m
    using cfg that by (simp add: agentInit_def callExt_def)
  have l3: "fst (agentInit E w b) = None"
    if "resolveAddr E b = Inr a" "extFails E (trace w) (ENewDB a (hostname E)) = None" for a
    using cfg that by (simp add: agentInit_def callExt_def Watch_def)
  have l4: "(resolveAddr E b = Inl err \<or>
       (\<exists>a m. resolveAddr E b = Inr a \<and>
          extFails E (trace w) (ENewDB a (hostname E)) = Some m \<and> err = ExtError m)) \<and>
      agentOf w' = agentOf w \<and>
      (\<forall>t nid k. EWatch t nid k \<notin> set (newEffects w w')) \<and>
      (\<forall>c h. ESpawn c h \<notin> set (newEffects w w'))"
    if f: "agentInit E w b = (Some err, w')" for err w'
  proof (cases "resolveAddr E b")
    case (Inl e)
    with l1 [OF Inl] f show ?thesis
      by (simp add: newEffects_def)
  next
    case (Inr a)
    show ?thesis
    proof (cases "extFails E (trace w) (ENewDB a (hostname E))")
      case None
      with l3 [OF Inr] f show ?thesis
        by simp
    next
      case (Some m)
      with l2 [OF Inr Some] f Inr show ?thesis
        by auto
    qed
  qed
  show ?thesis
    using l1 l2 l4 by blast
qed

theorem agentInit_failure_witness:
  "isAgentCfg exStateNoAgent \<and>
   agentInit exEnv exStateNoAgent ''eth9'' =
     (Some (ErrFindInterface ''eth9'' ''no such network interface''), exStateNoAgent) \<and>
   agentOf exStateNoAgent = None"
proof -
  have c: "isAgentCfg exStateNoAgent" and a: "agentOf exStateNoAgent = None"
    by (simp_all add: exStateNoAgent_def)
  have r: "resolveAddr exEnv ''eth9'' =
      Inl (ErrFindInterface ''eth9'' ''no such network interface'')"
    by (simp add: resolveAddr_def getBindAddr_def exEnv_def exEnvWith_def)
  have "\<forall>e. resolveAddr exEnv ''eth9'' = Inl e \<longrightarrow>
      agentInit exEnv exStateNoAgent ''eth9'' = (Some e, exStateNoAgent)"
    using agentInit_failure [OF c, of exEnv "''eth9''"] by (rule conjunct1)
  with r have "agentInit exEnv exStateNoAgent ''eth9'' =
     (Some (ErrFindInterface ''eth9'' ''no such network interface''), exStateNoAgent)"
    by blast
  with c a show ?thesis
    by blast
qed

text \<open>
  C10. For a cluster-eligible endpoint whose join information is nil, \<open>addToCluster\<close>
  never returns nil: either a collaborator's error ends it before the loop over the
  driver table entries, or it reaches the loop and panics on the nil pointer. It panics
  whenever the collaborators do not fail, and at once, before any call, when the endpoint
  is anonymous or has no address. \<open>deleteFromCluster\<close>, which tests the pointer, does
  not panic.
\<close>

theorem addToCluster_nil_joinInfo:
  assumes el: "isClusterEligible w n" and nil: "joinInfo ep = None"
  shows
  "(fst (addToCluster E w n ep) = Some NilPointerDereference \<or>
    (\<exists>m. fst (addToCluster E w n ep) = Some (ExtError m))) \<and>
   ((\<forall>h e. extFails E h e = None) \<longrightarrow> fst (addToCluster E w n ep) = Some NilPointerDereference) \<and>
   (isAnonymous ep \<or> ifaceAddress ep = None \<longrightarrow>
      addToCluster E w n ep = (Some NilPointerDereference, w)) \<and>
   fst (deleteFromCluster E w n ep) \<noteq> Some NilPointerDereference"
proof -
  define r where "r = (if \<not> isAnonymous ep
           then (case ifaceAddress ep of
                   Some a \<Rightarrow> addToCluster_record E w n ep a
                 | None \<Rightarrow> (None, w))
           else (None, w))"
  have add: "addToCluster E w n ep =
      (case fst r of Some err \<Rightarrow> (Some err, snd r)
       | None \<Rightarrow> (Some NilPointerDereference, snd r))"
    using el nil by (cases r) (simp add: addToCluster_def r_def [symmetric] split: option.splits)
  have r1: "fst r = None \<or> (\<exists>m. fst r = Some (ExtError m))"
    using addToCluster_record_fst by (simp add: r_def split: option.splits)
  have r2: "fst r = None" if "\<forall>h e. extFails E h e = None"
    using that addToCluster_record_ok by (simp add: r_def split: option.splits)
  have r3: "r = (None, w)" if "isAnonymous ep \<or> ifaceAddress ep = None"
    using that by (auto simp: r_def)
  define d where
    "d = (if \<not> isAnonymous ep then deleteFromCluster_record E w n ep else (None, w))"
  have del: "deleteFromCluster E w n ep =
      (case fst d of Some err \<Rightarrow> (Some err, snd d) | None \<Rightarrow> (None, snd d))"
    using el nil
    by (cases d) (simp add: deleteFromCluster_def d_def [symmetric] split: option.splits)
  have d1: "fst d = None \<or> (\<exists>m. fst d = Some (ExtError m))"
    using deleteFromCluster_record_fst by (simp add: d_def)
  have c1: "fst (addToCluster E w n ep) = Some NilPointerDereference \<or>
    (\<exists>m. fst (addToCluster E w n ep) = Some (ExtError m))"
    using r1 by (auto simp: add)
  have c2: "(\<forall>h e. extFails E h e = None) \<longrightarrow>
      fst (addToCluster E w n ep) = Some NilPointerDereference"
    using r2 by (auto simp: add)
  have c3: "isAnonymous ep \<or> ifaceAddress ep = None \<longrightarrow>
      addToCluster E w n ep = (Some NilPointerDereference, w)"
    using r3 by (auto simp: add)
  have c4: "fst (deleteFromCluster E w n ep) \<noteq> Some NilPointerDereference"
    using d1 by (auto simp: del)
  show ?thesis using c1 c2 c3 c4 by blast
qed

theorem addToCluster_nil_joinInfo_witness:
  "isClusterEligible exState exNet \<and> joinInfo exEpNoJoin = None \<and>
   fst (addToCluster exEnv exState exNet exEpNoJoin) = Some NilPointerDereference \<and>
   fst (deleteFromCluster exEnv exState exNet exEpNoJoin) \<noteq> Some NilPointerDereference"
proof -
  have j: "joinInfo exEpNoJoin = None"
    by (simp add: exEpNoJoin_def)
  note th = addToCluster_nil_joinInfo [OF exState_eligible j, of exEnv]
  have ok: "\<forall>h e. extFails exEnv h e = None"
    by simp
  have "(\<forall>h e. extFails exEnv h e = None) \<longrightarrow>
      fst (addToCluster exEnv exState exNet exEpNoJoin) = Some NilPointerDereference"
    using th by (rule conjunct1 [OF conjunct2])
  with ok have p: "fst (addToCluster exEnv exState exNet exEpNoJoin) = Some NilPointerDereference"
    by (rule rev_mp)
  have d: "fst (deleteFromCluster exEnv exState exNet exEpNoJoin) \<noteq> Some NilPointerDereference"
    using th by (rule conjunct2 [OF conjunct2 [OF conjunct2]])
  from exState_eligible j p d show ?thesis
    by blast
qed

end
